theory Spec2Isabelle
  imports Main "HOL-Library.AList"
begin

section \<open>Gamification: XP thresholds and levels (OnboardingChecklist.tsx, GamificationSection)\<close>

text \<open>
  The \<open>UserLevel\<close> interface. The \<open>icon\<close> field holds a React node that no
  computation reads; it is left out. XP values and thresholds are JavaScript numbers that
  only ever hold integers (sums of the achievements' integer rewards), modelled as \<open>int\<close>.
\<close>

record UserLevel =
  level :: int
  level_title :: string
  xpRequired :: int
  color :: string

definition levels :: "UserLevel list" where
  "levels =
    [\<lparr>level = 1, level_title = ''Iniciante'', xpRequired = 0, color = ''bg-gray-100 text-gray-800''\<rparr>,
     \<lparr>level = 2, level_title = ''Guerreiro'', xpRequired = 100, color = ''bg-green-100 text-green-800''\<rparr>,
     \<lparr>level = 3, level_title = ''Atleta'', xpRequired = 300, color = ''bg-blue-100 text-blue-800''\<rparr>,
     \<lparr>level = 4, level_title = ''Veterano'', xpRequired = 600, color = ''bg-purple-100 text-purple-800''\<rparr>,
     \<lparr>level = 5, level_title = ''Mestre'', xpRequired = 1000, color = ''bg-orange-100 text-orange-800''\<rparr>,
     \<lparr>level = 6, level_title = ''Lenda'', xpRequired = 1500, color = ''bg-yellow-100 text-yellow-800''\<rparr>]"

text \<open>
  \<^verbatim>\<open>[...levels].reverse().find(level => xp >= level.xpRequired) || levels[0]\<close>:
  \<open>find\<close> yields \<open>undefined\<close> (here \<open>None\<close>) when no element passes, and the
  \<open>||\<close> then selects the first element of the table.
\<close>

definition getCurrentLevelData :: "int \<Rightarrow> UserLevel" where
  "getCurrentLevelData xp =
     (case find (\<lambda>l. xp \<ge> xpRequired l) (rev levels) of
        Some l \<Rightarrow> l
      | None \<Rightarrow> \<lparr>level = 1, level_title = ''Iniciante'', xpRequired = 0,
                  color = ''bg-gray-100 text-gray-800''\<rparr>)"

text \<open>\<^verbatim>\<open>levels.find(level => xp < level.xpRequired) || null\<close>\<close>

definition getNextLevel :: "int \<Rightarrow> UserLevel option" where
  "getNextLevel xp = find (\<lambda>l. xp < xpRequired l) levels"

section \<open>Workout plan generation (supabase/functions/generate-workout-plan/index.ts)\<close>

subsection \<open>JavaScript values\<close>

text \<open>
  Strings are the UTF-8 bytes of the source's string literals, so an accented letter is
  two \<open>char\<close>s. Every operation the code applies to single characters
  (\<^verbatim>\<open>charAt(0).toUpperCase()\<close>) is applied to strings taken from the fixed tables
  below, whose first character is an ASCII letter.

  A parsed JSON document. Numbers are restricted to integers, which is what every number
  the code reads or writes (\<open>sets\<close>, \<open>duration_weeks\<close>, \<open>available_days\<close>) holds.
  A property read that yields \<open>undefined\<close> is \<open>None\<close>.
\<close>

datatype json =
    JNull
  | JBool bool
  | JNum int
  | JStr string
  | JArr "json list"
  | JObj "(string \<times> json) list"

datatype js_error = TypeError | SyntaxError | RangeError | Error string

text \<open>JavaScript truthiness, as tested by \<open>!x\<close> and \<open>x || y\<close>.\<close>

fun truthy :: "json option \<Rightarrow> bool" where
  "truthy None = False"
| "truthy (Some JNull) = False"
| "truthy (Some (JBool b)) = b"
| "truthy (Some (JNum n)) = (n \<noteq> 0)"
| "truthy (Some (JStr s)) = (s \<noteq> [])"
| "truthy (Some (JArr xs)) = True"
| "truthy (Some (JObj fs)) = True"

text \<open>\<open>x || d\<close> for a string or \<open>undefined\<close> \<open>x\<close>, and for a number or \<open>undefined\<close>.\<close>

definition orElse :: "string option \<Rightarrow> string \<Rightarrow> string" where
  "orElse x d = (case x of None \<Rightarrow> d | Some s \<Rightarrow> if s = [] then d else s)"

definition numOrElse :: "int option \<Rightarrow> int \<Rightarrow> int" where
  "numOrElse x d = (case x of None \<Rightarrow> d | Some n \<Rightarrow> if n = 0 then d else n)"

text \<open>
  Reading \<open>obj[key]\<close> on an object literal. A key that is not an own property is looked
  up on \<open>Object.prototype\<close>, whose standard properties are functions: the read then
  yields a (truthy) function instead of \<open>undefined\<close>. (\<open>__proto__\<close> is not listed:
  the Deno runtime removes that accessor.)
\<close>

definition objectPrototypeKeys :: "string list" where
  "objectPrototypeKeys =
    [''constructor'', ''hasOwnProperty'', ''isPrototypeOf'', ''propertyIsEnumerable'',
     ''toLocaleString'', ''toString'', ''valueOf'', ''__defineGetter__'', ''__defineSetter__'',
     ''__lookupGetter__'', ''__lookupSetter__'']"

datatype 'a property = Own 'a | Inherited | Absent

definition getProp :: "(string \<times> 'a) list \<Rightarrow> string \<Rightarrow> 'a property" where
  "getProp obj k =
     (case map_of obj k of
        Some v \<Rightarrow> Own v
      | None \<Rightarrow> if k \<in> set objectPrototypeKeys then Inherited else Absent)"

text \<open>The decimal text of a number in a template literal.\<close>

fun show_nat :: "nat \<Rightarrow> string" where
  "show_nat n =
     (if n < 10 then [char_of (48 + n)] else show_nat (n div 10) @ [char_of (48 + n mod 10)])"

definition show_int :: "int \<Rightarrow> string" where
  "show_int i = (if i < 0 then ''-'' @ show_nat (nat (- i)) else show_nat (nat i))"

text \<open>\<^verbatim>\<open>s.charAt(0).toUpperCase() + s.slice(1)\<close>, on ASCII letters.\<close>

definition toUpperCase :: "char \<Rightarrow> char" where
  "toUpperCase c =
     (if 97 \<le> (of_char c :: nat) \<and> (of_char c :: nat) \<le> 122 then char_of (of_char c - 32 :: nat) else c)"

definition capitalize :: "string \<Rightarrow> string" where
  "capitalize s = (case s of [] \<Rightarrow> [] | c # cs \<Rightarrow> toUpperCase c # cs)"

subsection \<open>The request's user profile\<close>

text \<open>
  \<open>userProfile\<close> is untyped in the function; the record has the fields the client sends
  (\<open>requestData.userProfile\<close> in WorkoutPlanGenerator.tsx), each of which may be missing.
  A \<open>null\<close> or \<open>undefined\<close> profile is \<open>None\<close>.
\<close>

record userProfile =
  age :: "int option"
  gender :: "string option"
  weight :: "int option"
  height :: "int option"
  fitness_level :: "string option"
  fitness_goals :: "string list option"
  available_days :: "int option"
  session_duration :: "int option"
  equipment :: "string option"
  limitations :: "string option"

text \<open>\<^verbatim>\<open>userProfile?.fitness_goals?.[0]\<close>\<close>

definition firstGoal :: "userProfile option \<Rightarrow> string option" where
  "firstGoal up =
     (case up of
        None \<Rightarrow> None
      | Some p \<Rightarrow> (case fitness_goals p of None \<Rightarrow> None | Some [] \<Rightarrow> None | Some (g # gs) \<Rightarrow> Some g))"

subsection \<open>mapFitnessLevelToDifficulty\<close>

definition mapFitnessLevelToDifficulty :: "string option \<Rightarrow> string" where
  "mapFitnessLevelToDifficulty fitnessLevel =
     (if fitnessLevel \<in> {Some ''sedentario'', Some ''pouco_ativo'', Some ''iniciante''} then ''iniciante''
      else if fitnessLevel \<in> {Some ''moderado'', Some ''ativo'', Some ''intermediario''} then ''intermediario''
      else if fitnessLevel \<in> {Some ''muito_ativo'', Some ''avancado''} then ''avancado''
      else ''iniciante'')"

subsection \<open>createFallbackPlan\<close>

record exercise =
  name :: string
  sets :: int
  reps :: string
  rest :: string
  instructions :: string

record plan =
  title :: string
  description :: string
  difficulty_level :: string
  duration_weeks :: int
  source :: string
  exercises :: "exercise list"
  nutrition_tips :: "string list"

definition goalsDescription :: "(string \<times> string) list" where
  "goalsDescription =
    [(''perder_peso'', ''perda de peso e queima de gordura''),
     (''ganhar_massa'', ''ganho de massa muscular''),
     (''tonificar'', ''tonifica'' @ [CHR 0xC3, CHR 0xA7, CHR 0xC3, CHR 0xA3] @ ''o corporal''),
     (''condicionamento'', ''melhora do condicionamento f'' @ [CHR 0xC3, CHR 0xAD] @ ''sico''),
     (''forca'', ''aumento da for'' @ [CHR 0xC3, CHR 0xA7] @ ''a''),
     (''flexibilidade'', ''melhora da flexibilidade''),
     (''geral'', ''condicionamento geral''),
     (''hipertrofia'', ''ganho de massa muscular e hipertrofia'')]"

definition weekNames :: "string list" where
  "weekNames =
    ['''',
     ''PRIMEIRA'',
     ''SEGUNDA'',
     ''TERCEIRA'',
     ''QUARTA'',
     ''QUINTA'',
     ''SEXTA'',
     ''S'' @ [CHR 0xC3, CHR 0x89] @ ''TIMA'',
     ''OITAVA'',
     ''NONA'',
     ''D'' @ [CHR 0xC3, CHR 0x89] @ ''CIMA'',
     ''D'' @ [CHR 0xC3, CHR 0x89] @ ''CIMA PRIMEIRA'',
     ''D'' @ [CHR 0xC3, CHR 0x89] @ ''CIMA SEGUNDA'']"

definition dayLetters :: "string list" where
  "dayLetters = ['''', ''A'', ''B'', ''C'', ''D'', ''E'', ''F'', ''G'']"

definition exercisesByDay :: "(string \<times> string list) list" where
  "exercisesByDay =
    [(''A'', [''Agachamento Livre'', ''Flex'' @ [CHR 0xC3, CHR 0xA3] @ ''o de Bra'' @ [CHR 0xC3, CHR 0xA7] @ ''o'', ''Prancha Isom'' @ [CHR 0xC3, CHR 0xA9] @ ''trica'']),
     (''B'', [''Afundo Alternado'', ''Flex'' @ [CHR 0xC3, CHR 0xA3] @ ''o Inclinada'', ''Ponte Gl'' @ [CHR 0xC3, CHR 0xBA] @ ''tea'']),
     (''C'', [''Agachamento Sumo'', ''Flex'' @ [CHR 0xC3, CHR 0xA3] @ ''o Diamante'', ''Mountain Climber'']),
     (''D'', [''Agachamento B'' @ [CHR 0xC3, CHR 0xBA] @ ''lgaro'', ''Flex'' @ [CHR 0xC3, CHR 0xA3] @ ''o Declinada'', ''Prancha Lateral'']),
     (''E'', [''Agachamento Jump'', ''Flex'' @ [CHR 0xC3, CHR 0xA3] @ ''o Hindu'', ''Burpee Modificado''])]"

definition nutrition_tips_fallback :: "string list" where
  "nutrition_tips_fallback =
    [''PRIMEIRA E SEGUNDA SEMANA: Prote'' @ [CHR 0xC3, CHR 0xAD] @ ''na p'' @ [CHR 0xC3, CHR 0xB3] @ ''s-treino moderada (15-20g) para adapta'' @ [CHR 0xC3, CHR 0xA7, CHR 0xC3, CHR 0xA3] @ ''o inicial'',
     ''TERCEIRA SEMANA: Aumento para 25-30g de prote'' @ [CHR 0xC3, CHR 0xAD] @ ''na p'' @ [CHR 0xC3, CHR 0xB3] @ ''s-treino para suporte '' @ [CHR 0xC3, CHR 0xA0] @ '' recupera'' @ [CHR 0xC3, CHR 0xA7, CHR 0xC3, CHR 0xA3] @ ''o'',
     ''Hidrata'' @ [CHR 0xC3, CHR 0xA7, CHR 0xC3, CHR 0xA3] @ ''o progressiva: 35ml por kg de peso + 300ml extra na primeira semana, 500ml extra da segunda semana em diante'',
     ''Carboidratos pr'' @ [CHR 0xC3, CHR 0xA9] @ ''-treino: come'' @ [CHR 0xC3, CHR 0xA7] @ ''ar com 20-30g na primeira semana, progredir para 30-50g'',
     ''Timing nutricional: manter consist'' @ [CHR 0xC3, CHR 0xAA] @ ''ncia nos hor'' @ [CHR 0xC3, CHR 0xA1] @ ''rios das refei'' @ [CHR 0xC3, CHR 0xA7, CHR 0xC3, CHR 0xB5] @ ''es para regular o metabolismo'',
     ''Sono reparador: 7-9h por noite, especialmente importante nas primeiras semanas de adapta'' @ [CHR 0xC3, CHR 0xA7, CHR 0xC3, CHR 0xA3] @ ''o'',
     ''Suplementa'' @ [CHR 0xC3, CHR 0xA7, CHR 0xC3, CHR 0xA3] @ ''o b'' @ [CHR 0xC3, CHR 0xA1] @ ''sica: considere apenas ap'' @ [CHR 0xC3, CHR 0xB3] @ ''s a terceira semana, quando o corpo estiver adaptado'']"

text \<open>
  \<open>dayLetters[day]\<close> is \<open>undefined\<close> from day 8 on; a template literal prints it as
  the text \<open>undefined\<close>.
\<close>

definition dayLetter :: "nat \<Rightarrow> string option" where
  "dayLetter day = (if day < length dayLetters then Some (dayLetters ! day) else None)"

definition dayLetterText :: "nat \<Rightarrow> string" where
  "dayLetterText day = (case dayLetter day of None \<Rightarrow> ''undefined'' | Some l \<Rightarrow> l)"

text \<open>
  \<^verbatim>\<open>exercisesByDay[dayLetter] || exercisesByDay['A']\<close>. The keys read here are the
  letters A to G and \<open>undefined\<close>, none of which is inherited.
\<close>

definition dayExercises :: "nat \<Rightarrow> string list" where
  "dayExercises day =
     (case map_of exercisesByDay (dayLetterText day) of
        Some xs \<Rightarrow> xs
      | None \<Rightarrow> (case map_of exercisesByDay ''A'' of Some xs \<Rightarrow> xs | None \<Rightarrow> []))"

definition warmup :: "string \<Rightarrow> nat \<Rightarrow> nat \<Rightarrow> exercise" where
  "warmup difficultyLevel week day =
     \<lparr>name = (weekNames ! week) @ '' SEMANA - Aquecimento (Treino '' @ dayLetterText day @ '')'',
      sets = 1,
      reps = ''8-10 minutos'',
      rest = ''N/A'',
      instructions = ''Aquecimento espec'' @ [CHR 0xC3, CHR 0xAD] @ ''fico para Treino '' @ dayLetterText day @ '': rota'' @ [CHR 0xC3, CHR 0xA7, CHR 0xC3, CHR 0xB5] @ ''es articulares, mobilidade din'' @ [CHR 0xC3, CHR 0xA2] @ ''mica e ativa'' @ [CHR 0xC3, CHR 0xA7, CHR 0xC3, CHR 0xA3] @ ''o cardiovascular. '' @ (weekNames ! week) @ '' SEMANA: Prepara'' @ [CHR 0xC3, CHR 0xA7, CHR 0xC3, CHR 0xA3] @ ''o progressiva adequada ao n'' @ [CHR 0xC3, CHR 0xAD] @ ''vel '' @ difficultyLevel @ ''.''\<rparr>"

definition mainExercise :: "string \<Rightarrow> string \<Rightarrow> nat \<Rightarrow> nat \<Rightarrow> nat \<times> string \<Rightarrow> exercise" where
  "mainExercise difficultyLevel goalDesc week day ie =
     (case ie of (index, exerciseName) \<Rightarrow>
       \<lparr>name = (weekNames ! week) @ '' SEMANA - Treino '' @ dayLetterText day @ '': '' @ exerciseName,
        sets = (if week \<le> 4 then 2 + int index else 3 + int index),
        reps = (if week \<le> 4 then ''8-10'' else ''10-15''),
        rest = ''60-90s'',
        instructions = ''EXECU'' @ [CHR 0xC3, CHR 0x87, CHR 0xC3, CHR 0x83] @ ''O T'' @ [CHR 0xC3, CHR 0x89] @ ''CNICA: T'' @ [CHR 0xC3, CHR 0xA9] @ ''cnica biomec'' @ [CHR 0xC3, CHR 0xA2] @ ''nica detalhada para '' @ exerciseName @ ''. '' @ (weekNames ! week) @ '' SEMANA: Progress'' @ [CHR 0xC3, CHR 0xA3] @ ''o adequada considerando '' @ goalDesc @ ''. M'' @ [CHR 0xC3, CHR 0x9A] @ ''SCULOS: Grupos musculares espec'' @ [CHR 0xC3, CHR 0xAD] @ ''ficos trabalhados. ADAPTA'' @ [CHR 0xC3, CHR 0x87, CHR 0xC3, CHR 0x95] @ ''ES: Considera'' @ [CHR 0xC3, CHR 0xA7, CHR 0xC3, CHR 0xB5] @ ''es para n'' @ [CHR 0xC3, CHR 0xAD] @ ''vel '' @ difficultyLevel @ ''.''\<rparr>)"

text \<open>One pass of the inner loop body: the warm-up entry, then \<open>dayExercises.forEach\<close>.\<close>

definition dayEntries :: "string \<Rightarrow> string \<Rightarrow> nat \<Rightarrow> nat \<Rightarrow> exercise list" where
  "dayEntries difficultyLevel goalDesc week day =
     warmup difficultyLevel week day
     # map (mainExercise difficultyLevel goalDesc week day) (enumerate 0 (dayExercises day))"

text \<open>
  \<^verbatim>\<open>for (week = 1; week <= 12; week++) for (day = 1; day <= availableDays; day++)\<close>:
  no day is visited when \<open>availableDays\<close> is below 1.
\<close>

definition fallbackExercises :: "string \<Rightarrow> string \<Rightarrow> int \<Rightarrow> exercise list" where
  "fallbackExercises difficultyLevel goalDesc availableDays =
     concat (map (\<lambda>week. concat (map (dayEntries difficultyLevel goalDesc week)
                                       [1 ..< Suc (nat availableDays)]))
                 [1 ..< 13])"

definition fallbackPlan :: "string \<Rightarrow> string \<Rightarrow> int \<Rightarrow> plan" where
  "fallbackPlan difficultyLevel goalDesc availableDays =
     \<lparr>title = ''Plano Periodizado '' @ capitalize difficultyLevel @ '' - '' @ capitalize goalDesc,
      description = ''Plano periodizado de 12 semanas espec'' @ [CHR 0xC3, CHR 0xAD] @ ''fico para '' @ goalDesc @ '' para n'' @ [CHR 0xC3, CHR 0xAD] @ ''vel '' @ difficultyLevel @ '', com '' @ show_int availableDays @ '' sess'' @ [CHR 0xC3, CHR 0xB5] @ ''es semanais. Este treino foi desenvolvido considerando seu perfil e objetivos espec'' @ [CHR 0xC3, CHR 0xAD] @ ''ficos.'',
      difficulty_level = difficultyLevel,
      duration_weeks = 12,
      source = ''fallback'',
      exercises = fallbackExercises difficultyLevel goalDesc availableDays,
      nutrition_tips = nutrition_tips_fallback\<rparr>"

text \<open>
  \<open>goalsDescription[goals] || 'condicionamento geral'\<close>: when \<open>goals\<close> names a property
  inherited from \<open>Object.prototype\<close> the read yields a function, which is kept by the
  \<open>||\<close>; the loop prints it in the instructions, and the title expression
  \<open>goalDesc.charAt(0)\<close> then throws a TypeError, so no plan is returned.
\<close>

definition createFallbackPlan :: "userProfile option \<Rightarrow> js_error + plan" where
  "createFallbackPlan up =
     (let level = orElse (Option.bind up fitness_level) ''iniciante'';
          goals = orElse (firstGoal up) ''condicionamento geral'';
          availableDays = numOrElse (Option.bind up available_days) 3;
          difficultyLevel = mapFitnessLevelToDifficulty (Some level)
      in case getProp goalsDescription goals of
           Own d \<Rightarrow> Inr (fallbackPlan difficultyLevel (orElse (Some d) ''condicionamento geral'') availableDays)
         | Absent \<Rightarrow> Inr (fallbackPlan difficultyLevel ''condicionamento geral'' availableDays)
         | Inherited \<Rightarrow> Inl TypeError)"

text \<open>\<open>JSON.stringify\<close> of the plan object, as the client parses it back.\<close>

definition exercise_json :: "exercise \<Rightarrow> json" where
  "exercise_json e =
     JObj [(''name'', JStr (name e)), (''sets'', JNum (sets e)), (''reps'', JStr (reps e)),
           (''rest'', JStr (rest e)), (''instructions'', JStr (instructions e))]"

definition plan_json :: "plan \<Rightarrow> json" where
  "plan_json p =
     JObj [(''title'', JStr (title p)), (''description'', JStr (description p)),
           (''difficulty_level'', JStr (difficulty_level p)),
           (''duration_weeks'', JNum (duration_weeks p)), (''source'', JStr (source p)),
           (''exercises'', JArr (map exercise_json (exercises p))),
           (''nutrition_tips'', JArr (map JStr (nutrition_tips p)))]"
subsection \<open>The request handler\<close>

text \<open>
  The white space that \<open>String.prototype.trim\<close> strips and the regular expression
  class \<open>\s\<close> matches, each character as its UTF-8 bytes: U+0009 to U+000D, U+0020,
  U+00A0, U+1680, U+2000 to U+200A, U+2028, U+2029, U+202F, U+205F, U+3000 and U+FEFF.
\<close>

definition whiteSpace :: "string list" where
  "whiteSpace =
     [[CHR 0x09], [CHR 0x0A], [CHR 0x0B], [CHR 0x0C], [CHR 0x0D], [CHR 0x20],
      [CHR 0xC2, CHR 0xA0], [CHR 0xE1, CHR 0x9A, CHR 0x80],
      [CHR 0xE2, CHR 0x80, CHR 0x80], [CHR 0xE2, CHR 0x80, CHR 0x81],
      [CHR 0xE2, CHR 0x80, CHR 0x82], [CHR 0xE2, CHR 0x80, CHR 0x83],
      [CHR 0xE2, CHR 0x80, CHR 0x84], [CHR 0xE2, CHR 0x80, CHR 0x85],
      [CHR 0xE2, CHR 0x80, CHR 0x86], [CHR 0xE2, CHR 0x80, CHR 0x87],
      [CHR 0xE2, CHR 0x80, CHR 0x88], [CHR 0xE2, CHR 0x80, CHR 0x89],
      [CHR 0xE2, CHR 0x80, CHR 0x8A], [CHR 0xE2, CHR 0x80, CHR 0xA8],
      [CHR 0xE2, CHR 0x80, CHR 0xA9], [CHR 0xE2, CHR 0x80, CHR 0xAF],
      [CHR 0xE2, CHR 0x81, CHR 0x9F], [CHR 0xE3, CHR 0x80, CHR 0x80],
      [CHR 0xEF, CHR 0xBB, CHR 0xBF]]"

text \<open>
  \<open>leadingSpace ws s\<close> is the number of bytes of the white-space character that
  \<open>s\<close> starts with, 0 if it starts with none; \<open>dropSpace ws s\<close> removes all the
  white space \<open>s\<close> starts with. White space at the end of a string is white space at the
  start of the reversed string, with the characters' bytes reversed.
\<close>

definition leadingSpace :: "string list \<Rightarrow> string \<Rightarrow> nat" where
  "leadingSpace ws s =
     (case find (\<lambda>w. take (length w) s = w) ws of None \<Rightarrow> 0 | Some w \<Rightarrow> length w)"

function dropSpace :: "string list \<Rightarrow> string \<Rightarrow> string" where
  "dropSpace ws s =
     (if leadingSpace ws s = 0 \<or> s = [] then s else dropSpace ws (drop (leadingSpace ws s) s))"
  by pat_completeness auto
termination
  by (relation "measure (\<lambda>(ws, s). length s)") auto

declare dropSpace.simps [simp del]

definition trimStart :: "string \<Rightarrow> string" where
  "trimStart s = dropSpace whiteSpace s"

definition trimEnd :: "string \<Rightarrow> string" where
  "trimEnd s = rev (dropSpace (map rev whiteSpace) (rev s))"

definition trim :: "string \<Rightarrow> string" where
  "trim s = trimEnd (trimStart s)"

text \<open>
  \<open>splitAtFirst pat s\<close> finds the leftmost occurrence of \<open>pat\<close> in \<open>s\<close> and returns
  the text before and after it; \<open>s.includes(pat)\<close> tells whether there is one.
\<close>

fun splitAtFirst :: "string \<Rightarrow> string \<Rightarrow> (string \<times> string) option" where
  "splitAtFirst pat [] = (if pat = [] then Some ([], []) else None)"
| "splitAtFirst pat (c # cs) =
     (if take (length pat) (c # cs) = pat then Some ([], drop (length pat) (c # cs))
      else map_option (\<lambda>(before, after). (c # before, after)) (splitAtFirst pat cs))"

definition str_includes :: "string \<Rightarrow> string \<Rightarrow> bool" where
  "str_includes s pat = (splitAtFirst pat s \<noteq> None)"

text \<open>
  \<^verbatim>\<open>content.match(/<fence>\s*([\s\S]*?)\s*```/)\<close>, first capture group: after the
  leftmost opening fence the greedy \<open>\s*\<close> takes all white space, and the lazy group ends
  at the first place from which only white space precedes a closing fence. There is no match
  when no closing fence follows the leftmost opening one.
\<close>

definition matchFence :: "string \<Rightarrow> string \<Rightarrow> string option" where
  "matchFence fence content =
     (case splitAtFirst fence content of
        None \<Rightarrow> None
      | Some (before, after) \<Rightarrow>
          (case splitAtFirst ''```'' (trimStart after) of
             None \<Rightarrow> None
           | Some (captured, tail) \<Rightarrow> Some (trimEnd captured)))"

definition extractJson :: "string \<Rightarrow> string" where
  "extractJson content =
     (if str_includes content ''```json'' then
        (case matchFence ''```json'' content of Some j \<Rightarrow> j | None \<Rightarrow> content)
      else if str_includes content ''```'' then
        (case matchFence ''```'' content of Some j \<Rightarrow> j | None \<Rightarrow> content)
      else content)"

definition goalsMap :: "(string \<times> string) list" where
  "goalsMap =
    [(''perder_peso'', ''perder peso e queimar gordura corporal''),
     (''ganhar_massa'', ''ganhar massa muscular e hipertrofia''),
     (''tonificar'', ''tonificar o corpo e definir m'' @ [CHR 0xC3, CHR 0xBA] @ ''sculos''),
     (''condicionamento'', ''melhorar condicionamento cardiovascular''),
     (''forca'', ''aumentar for'' @ [CHR 0xC3, CHR 0xA7] @ ''a e pot'' @ [CHR 0xC3, CHR 0xAA] @ ''ncia muscular''),
     (''flexibilidade'', ''melhorar flexibilidade e mobilidade''),
     (''geral'', ''condicionamento f'' @ [CHR 0xC3, CHR 0xAD] @ ''sico geral''),
     (''hipertrofia'', ''ganhar massa muscular e hipertrofia'')]"

definition equipmentMap :: "(string \<times> string) list" where
  "equipmentMap =
    [(''academia_completa'', ''academia completa com halteres, barras, m'' @ [CHR 0xC3, CHR 0xA1] @ ''quinas de muscula'' @ [CHR 0xC3, CHR 0xA7, CHR 0xC3, CHR 0xA3] @ ''o, esteiras e equipamentos de cardio''),
     (''casa_halteres'', ''treino em casa com halteres, barras, el'' @ [CHR 0xC3, CHR 0xA1] @ ''sticos e equipamentos b'' @ [CHR 0xC3, CHR 0xA1] @ ''sicos''),
     (''casa_basico'', ''treino em casa com equipamentos b'' @ [CHR 0xC3, CHR 0xA1] @ ''sicos limitados''),
     (''peso_corporal'', ''exerc'' @ [CHR 0xC3, CHR 0xAD] @ ''cios usando apenas o peso corporal, sem equipamentos''),
     (''parque'', ''exerc'' @ [CHR 0xC3, CHR 0xAD] @ ''cios ao ar livre em parques com barras e equipamentos p'' @ [CHR 0xC3, CHR 0xBA] @ ''blicos'')]"

definition limitationsMap :: "(string \<times> string) list" where
  "limitationsMap =
    [(''nenhuma'', ''nenhuma limita'' @ [CHR 0xC3, CHR 0xA7, CHR 0xC3, CHR 0xA3] @ ''o f'' @ [CHR 0xC3, CHR 0xAD] @ ''sica''),
     (''joelho'', ''problemas no joelho - evitar impacto e sobrecarga''),
     (''costas'', ''problemas nas costas - foco em fortalecimento do core''),
     (''ombro'', ''problemas no ombro - evitar movimentos overhead''),
     (''tornozelo'', ''problemas no tornozelo - exerc'' @ [CHR 0xC3, CHR 0xAD] @ ''cios de baixo impacto''),
     (''cardiaco'', ''problemas card'' @ [CHR 0xC3, CHR 0xAD] @ ''acos - intensidade moderada controlada''),
     (''outros'', ''outras limita'' @ [CHR 0xC3, CHR 0xA7, CHR 0xC3, CHR 0xB5] @ ''es f'' @ [CHR 0xC3, CHR 0xAD] @ ''sicas espec'' @ [CHR 0xC3, CHR 0xAD] @ ''ficas'')]"

definition fitnessLevelMap :: "(string \<times> string) list" where
  "fitnessLevelMap =
    [(''sedentario'', ''sedent'' @ [CHR 0xC3, CHR 0xA1] @ ''rio - iniciante absoluto sem experi'' @ [CHR 0xC3, CHR 0xAA] @ ''ncia em exerc'' @ [CHR 0xC3, CHR 0xAD] @ ''cios''),
     (''pouco_ativo'', ''pouco ativo - experi'' @ [CHR 0xC3, CHR 0xAA] @ ''ncia limitada com exerc'' @ [CHR 0xC3, CHR 0xAD] @ ''cios''),
     (''moderado'', ''moderadamente ativo - alguma experi'' @ [CHR 0xC3, CHR 0xAA] @ ''ncia com treinos''),
     (''ativo'', ''ativo - experi'' @ [CHR 0xC3, CHR 0xAA] @ ''ncia regular com exerc'' @ [CHR 0xC3, CHR 0xAD] @ ''cios''),
     (''muito_ativo'', ''muito ativo - experi'' @ [CHR 0xC3, CHR 0xAA] @ ''ncia avan'' @ [CHR 0xC3, CHR 0xA7] @ ''ada em treinamento''),
     (''avancado'', ''atl'' @ [CHR 0xC3, CHR 0xA9] @ ''tico avan'' @ [CHR 0xC3, CHR 0xA7] @ ''ado - alto n'' @ [CHR 0xC3, CHR 0xAD] @ ''vel de condicionamento''),
     (''iniciante'', ''iniciante - pouca experi'' @ [CHR 0xC3, CHR 0xAA] @ ''ncia em treinamento'')]"

text \<open>
  \<open>table[x] || x || d\<close> as it ends up in the JSON response: a string, or nothing when the
  read yields an inherited function (\<open>JSON.stringify\<close> omits function-valued properties).
  A missing \<open>x\<close> is read as the key \<open>undefined\<close>.
\<close>

definition describe :: "(string \<times> string) list \<Rightarrow> string option \<Rightarrow> string \<Rightarrow> json option" where
  "describe table x d =
     (case getProp table (case x of None \<Rightarrow> ''undefined'' | Some k \<Rightarrow> k) of
        Own v \<Rightarrow> Some (JStr (orElse (Some v) (orElse x d)))
      | Absent \<Rightarrow> Some (JStr (orElse x d))
      | Inherited \<Rightarrow> None)"

definition generated_for :: "userProfile \<Rightarrow> json" where
  "generated_for p =
     JObj (List.map_filter (\<lambda>(k, v). map_option (Pair k) v)
       [(''goals'', describe goalsMap (firstGoal (Some p)) (''melhorar condicionamento geral'')),
        (''equipment'', describe equipmentMap (equipment p) (''equipamentos b'' @ [CHR 0xC3, CHR 0xA1] @ ''sicos'')),
        (''level'', describe fitnessLevelMap (fitness_level p) ''iniciante''),
        (''limitations'', describe limitationsMap (limitations p) (''nenhuma limita'' @ [CHR 0xC3, CHR 0xA7, CHR 0xC3, CHR 0xA3] @ ''o'')),
        (''days'', Some (JNum (numOrElse (available_days p) 3))),
        (''duration'', Some (JNum (numOrElse (session_duration p) 60)))])"

definition validLevels :: "string list" where
  "validLevels = [''iniciante'', ''intermediario'', ''avancado'']"

text \<open>\<open>validLevels.includes(x)\<close> and \<open>Array.isArray(x)\<close>\<close>

definition isValidLevel :: "json option \<Rightarrow> bool" where
  "isValidLevel x = (case x of Some (JStr l) \<Rightarrow> l \<in> set validLevels | _ \<Rightarrow> False)"

definition isArray :: "json option \<Rightarrow> bool" where
  "isArray x = (case x of Some (JArr xs) \<Rightarrow> True | _ \<Rightarrow> False)"

text \<open>
  The statements of the inner \<open>try\<close> after \<open>JSON.parse\<close>. On \<open>null\<close> the read of
  \<open>difficulty_level\<close> throws; on a number, string or boolean the read is \<open>undefined\<close>
  and the assignment that follows throws (module code is strict); an array takes the
  assignment and then has no \<open>title\<close>. Property assignment replaces an existing key in
  place and appends a new one, as \<open>AList.update\<close> does.
\<close>

definition validatePlan :: "userProfile \<Rightarrow> json \<Rightarrow> js_error + json" where
  "validatePlan p workoutPlan =
     (case workoutPlan of
        JObj fs \<Rightarrow>
          (let fs1 = (if \<not> truthy (map_of fs ''difficulty_level'')
                         \<or> \<not> isValidLevel (map_of fs ''difficulty_level'')
                      then AList.update ''difficulty_level''
                             (JStr (mapFitnessLevelToDifficulty (fitness_level p))) fs
                      else fs)
           in if \<not> truthy (map_of fs1 ''title'') \<or> \<not> truthy (map_of fs1 ''exercises'')
                 \<or> \<not> isArray (map_of fs1 ''exercises'')
              then Inl (Error (''Estrutura do JSON inv'' @ [CHR 0xC3, CHR 0xA1] @ ''lida da API Groq''))
              else Inr (JObj (AList.update ''generated_for'' (generated_for p)
                               (AList.update ''source'' (JStr ''groq_api'') fs1))))
      | JArr xs \<Rightarrow> Inl (Error (''Estrutura do JSON inv'' @ [CHR 0xC3, CHR 0xA1] @ ''lida da API Groq''))
      | JNull \<Rightarrow> Inl TypeError
      | JBool b \<Rightarrow> Inl TypeError
      | JNum n \<Rightarrow> Inl TypeError
      | JStr s \<Rightarrow> Inl TypeError)"

text \<open>
  What the handler depends on besides the request: the \<open>GROQ_API_KEY\<close> environment
  variable, the outcome of the call to the language-model API, \<open>JSON.parse\<close>, and the
  resources of the worker that runs the handler: \<open>canBuild env d\<close> tells whether the
  worker has the memory and time to run the loops of \<open>createFallbackPlan\<close> for \<open>d\<close>
  available days (it is terminated otherwise), and \<open>canStringify env x\<close> whether
  \<open>JSON.stringify(x)\<close> returns (it throws a RangeError when the text would exceed the
  longest string of the runtime). The prompt is only an argument of the call to the API and
  is not modelled. The outcomes of the call:
  \<open>fetch\<close> rejects; the response is not OK; the response body is not JSON, holds
  \<open>null\<close>, or holds a content that is not a string (each of which throws); or
  \<open>data.choices?.[0]?.message?.content || ''\<close> is the given string.
\<close>

datatype groq_reply = FetchFailed | NotOk | BadBody | Content string

record environment =
  GROQ_API_KEY :: "string option"
  groq :: groq_reply
  JSON_parse :: "string \<Rightarrow> json option"
  canBuild :: "int \<Rightarrow> bool"
  canStringify :: "json \<Rightarrow> bool"

text \<open>
  The request: its \<open>method\<close> (the field \<open>http_method\<close>) and the outcome of \<open>const { userProfile } = await req.json()\<close>,
  which throws on a body that is not JSON.
\<close>

datatype req_body = Unparsable | Parsed "userProfile option"

record request =
  http_method :: string
  body :: req_body

record response =
  status :: nat
  payload :: "json option"

definition keyMissing :: "string option \<Rightarrow> bool" where
  "keyMissing groqApiKey = (case groqApiKey of None \<Rightarrow> True | Some k \<Rightarrow> k = [] \<or> trim k = [])"

definition contentEmpty :: "string \<Rightarrow> bool" where
  "contentEmpty content = (content = [] \<or> trim content = [])"

text \<open>
  How a computation in the worker ends: with a value, with an exception, or with the
  worker terminated.
\<close>

datatype 'a completion = Returned 'a | Thrown js_error | Terminated

text \<open>\<open>userProfile?.available_days || 3\<close>, the bound of the inner loop.\<close>

definition requestedDays :: "userProfile option \<Rightarrow> int" where
  "requestedDays up = numOrElse (Option.bind up available_days) 3"

text \<open>A call \<open>createFallbackPlan(userProfile)\<close> inside the worker.\<close>

definition callFallback :: "environment \<Rightarrow> userProfile option \<Rightarrow> plan completion" where
  "callFallback env up =
     (if \<not> canBuild env (requestedDays up) then Terminated
      else (case createFallbackPlan up of Inl e \<Rightarrow> Thrown e | Inr p \<Rightarrow> Returned p))"

text \<open>
  \<^verbatim>\<open>new Response(JSON.stringify(x), { headers })\<close>: a response without an explicit
  status has status 200. The payload is the value whose JSON text is the body.
\<close>

definition respond :: "environment \<Rightarrow> json \<Rightarrow> response completion" where
  "respond env x =
     (if canStringify env x then Returned \<lparr>status = 200, payload = Some x\<rparr>
      else Thrown RangeError)"

text \<open>\<open>createFallbackPlan(userProfile)\<close> followed by the response with its plan.\<close>

definition respondFallback :: "environment \<Rightarrow> userProfile option \<Rightarrow> response completion" where
  "respondFallback env up =
     (case callFallback env up of
        Returned p \<Rightarrow> respond env (plan_json p)
      | Thrown e \<Rightarrow> Thrown e
      | Terminated \<Rightarrow> Terminated)"

text \<open>
  The body of the outer \<open>try\<close>; \<open>Thrown\<close> is an exception that reaches the outer
  \<open>catch\<close>. The inner \<open>catch\<close> replaces a plan that fails to parse or to validate
  by \<open>createFallbackPlan(userProfile)\<close>.
\<close>

definition tryBody :: "environment \<Rightarrow> req_body \<Rightarrow> response completion" where
  "tryBody env b =
     (case b of
        Unparsable \<Rightarrow> Thrown SyntaxError
      | Parsed up \<Rightarrow>
          if keyMissing (GROQ_API_KEY env) then respondFallback env up
          else (case up of
                  None \<Rightarrow> Thrown TypeError
                | Some p \<Rightarrow>
                    (case groq env of
                       FetchFailed \<Rightarrow> Thrown TypeError
                     | NotOk \<Rightarrow> respondFallback env (Some p)
                     | BadBody \<Rightarrow> Thrown SyntaxError
                     | Content content \<Rightarrow>
                         if contentEmpty content then respondFallback env (Some p)
                         else (case JSON_parse env (extractJson (trim content)) of
                                 None \<Rightarrow> respondFallback env (Some p)
                               | Some workoutPlan \<Rightarrow>
                                   (case validatePlan p workoutPlan of
                                      Inr j \<Rightarrow> respond env j
                                    | Inl parseError \<Rightarrow> respondFallback env (Some p))))))"

text \<open>
  \<open>serve\<close>'s handler: the \<open>OPTIONS\<close> guard, the outer \<open>try\<close>, and the outer
  \<open>catch\<close> with \<open>createFallbackPlan(null)\<close>. When the worker is terminated or an
  exception leaves the \<open>catch\<close>, the handler returns nothing and the platform answers
  with a server error, modelled as status 500 without a body.
\<close>

definition serverError :: response where
  "serverError = \<lparr>status = 500, payload = None\<rparr>"

definition serve :: "environment \<Rightarrow> request \<Rightarrow> response" where
  "serve env req =
     (if http_method req = ''OPTIONS'' then \<lparr>status = 200, payload = None\<rparr>
      else (case tryBody env (body req) of
              Returned r \<Rightarrow> r
            | Terminated \<Rightarrow> serverError
            | Thrown error \<Rightarrow>
                (case respondFallback env None of
                   Returned r \<Rightarrow> r
                 | Thrown e \<Rightarrow> serverError
                 | Terminated \<Rightarrow> serverError)))"

section \<open>The client's plan construction (WorkoutPlanGenerator.tsx, generateWorkoutPlan)\<close>

text \<open>\<open>x || d\<close> on JSON values.\<close>

definition jsOr :: "json option \<Rightarrow> json \<Rightarrow> json" where
  "jsOr x d = (case x of None \<Rightarrow> d | Some v \<Rightarrow> if truthy (Some v) then v else d)"

text \<open>
  From the \<open>data\<close> of \<open>supabase.functions.invoke\<close>: the guard
  \<^verbatim>\<open>!data || typeof data !== 'object' || (!data.title && !data.exercises)\<close> throws, and
  otherwise the \<open>plan\<close> object literal is built. An array passes \<open>typeof\<close> but has
  neither property.
\<close>

definition buildPlan :: "json option \<Rightarrow> js_error + json" where
  "buildPlan data =
     (case data of
        Some (JObj fs) \<Rightarrow>
          if \<not> truthy (map_of fs ''title'') \<and> \<not> truthy (map_of fs ''exercises'')
          then Inl (Error (''Plano de treino inv'' @ [CHR 0xC3, CHR 0xA1] @ ''lido retornado pela API''))
          else Inr (JObj
            [(''title'', jsOr (map_of fs ''title'') (JStr ''Plano de Treino Personalizado'')),
             (''description'', jsOr (map_of fs ''description'') (JStr ''Plano gerado com base no seu perfil'')),
             (''difficulty_level'', jsOr (map_of fs ''difficulty_level'') (JStr ''iniciante'')),
             (''duration_weeks'', jsOr (map_of fs ''duration_weeks'') (JNum 8)),
             (''exercises'', jsOr (map_of fs ''exercises'') (JArr [])),
             (''nutrition_tips'', jsOr (map_of fs ''nutrition_tips'') (JArr []))])
      | _ \<Rightarrow> Inl (Error (''Plano de treino inv'' @ [CHR 0xC3, CHR 0xA1] @ ''lido retornado pela API'')))"

text \<open>
  The plan that \<open>generateWorkoutPlan\<close> persists with \<open>saveWorkoutPlan\<close> and then
  displays with \<open>setWorkoutPlan\<close>: the object built above, unless building throws or the
  insert fails (\<open>saveWorkoutPlan\<close> then returns \<open>null\<close> and nothing is displayed).
\<close>

definition generatedPlan :: "bool \<Rightarrow> json option \<Rightarrow> json option" where
  "generatedPlan saved data =
     (case buildPlan data of Inl e \<Rightarrow> None | Inr plan \<Rightarrow> if saved then Some plan else None)"

text \<open>Reading a property of a JSON value, for the statements below.\<close>

definition field :: "json \<Rightarrow> string \<Rightarrow> json option" where
  "field j k = (case j of JObj fs \<Rightarrow> map_of fs k | _ \<Rightarrow> None)"
section \<open>Per-exercise completion (WorkoutPlanGenerator.tsx, handleProgressChange)\<close>

text \<open>
  The component state \<open>progressMap\<close> is a \<open>Map<string, boolean>\<close>; the table
  \<open>plan_progress\<close> holds one \<open>is_completed\<close> per
  \<open>(user_id, plan_id, item_identifier)\<close>, the conflict target of the upsert.
\<close>

type_synonym progressMap = "string \<rightharpoonup> bool"

type_synonym plan_progress = "string \<times> string \<times> string \<rightharpoonup> bool"

text \<open>
  \<open>updateItemProgress\<close>: the upsert, which throws when the client reports an error (the
  first argument), leaving the table as it was.
\<close>

definition updateItemProgress ::
  "bool \<Rightarrow> string \<times> string \<times> string \<Rightarrow> bool \<Rightarrow> plan_progress \<Rightarrow> js_error + plan_progress" where
  "updateItemProgress fails key is_completed table =
     (if fails then Inl (Error ''upsert'') else Inr (table(key \<mapsto> is_completed)))"

text \<open>
  \<open>handleProgressChange(itemIdentifier, currentStatus)\<close>, given the signed-in user's id
  (\<open>None\<close> for \<open>null\<close>) and \<open>workoutPlan?.title\<close>. The result lists the values that
  the successive \<open>setProgressMap\<close> calls give to \<open>progressMap\<close>, and the table
  afterwards. Nothing happens without a user or with a missing or empty title.
\<close>

definition handleProgressChange ::
  "bool \<Rightarrow> string option \<Rightarrow> string option \<Rightarrow> string \<Rightarrow> bool \<Rightarrow> progressMap \<Rightarrow> plan_progress
     \<Rightarrow> progressMap list \<times> plan_progress" where
  "handleProgressChange fails user currentPlanId itemIdentifier currentStatus prevMap table =
     (case (user, currentPlanId) of
        (Some userId, Some planId) \<Rightarrow>
          if planId = [] then ([], table)
          else
            (let newStatus = \<not> currentStatus;
                 optimistic = prevMap(itemIdentifier \<mapsto> newStatus)
             in case updateItemProgress fails (userId, planId, itemIdentifier) newStatus table of
                  Inr table' \<Rightarrow> ([optimistic], table')
                | Inl error \<Rightarrow> ([optimistic, optimistic(itemIdentifier \<mapsto> currentStatus)], table))
      | _ \<Rightarrow> ([], table))"

text \<open>
  The completion state the plan view displays for an item:
  \<^verbatim>\<open>progressMap.get(itemIdentifier) || false\<close>; it is also the \<open>currentStatus\<close> that
  the checkbox passes to \<open>handleProgressChange\<close>.
\<close>

definition isCompleted :: "progressMap \<Rightarrow> string \<Rightarrow> bool" where
  "isCompleted m itemIdentifier = (case m itemIdentifier of Some b \<Rightarrow> b | None \<Rightarrow> False)"

section \<open>Workout streak (WorkoutPlanGenerator.tsx, WorkoutStreak)\<close>

subsection \<open>Dates\<close>

text \<open>
  A \<open>Date\<close> is a number of milliseconds; the model takes them in local civil time and
  assumes a constant offset from UTC (no daylight-saving change), so that a calendar day
  is the quotient by the milliseconds of a day. Day 0 is Thursday, 1 January 1970.
\<close>

definition msPerDay :: int where
  "msPerDay = 24 * 60 * 60 * 1000"

text \<open>Year, month (1 to 12) and day of the month of a day number, and back.\<close>

definition civil_from_days :: "int \<Rightarrow> int \<times> int \<times> int" where
  "civil_from_days z0 =
     (let z = z0 + 719468;
          era = z div 146097;
          doe = z - era * 146097;
          yoe = (doe - doe div 1460 + doe div 36524 - doe div 146096) div 365;
          doy = doe - (365 * yoe + yoe div 4 - yoe div 100);
          mp = (5 * doy + 2) div 153;
          d = doy - (153 * mp + 2) div 5 + 1;
          m = (if mp < 10 then mp + 3 else mp - 9);
          y = yoe + era * 400
      in (if m \<le> 2 then y + 1 else y, m, d))"

definition days_from_civil :: "int \<Rightarrow> int \<Rightarrow> int \<Rightarrow> int" where
  "days_from_civil y0 m d =
     (let y = (if m \<le> 2 then y0 - 1 else y0);
          era = y div 400;
          yoe = y - era * 400;
          doy = (153 * (if m > 2 then m - 3 else m + 9) + 2) div 5 + d - 1;
          doe = yoe * 365 + yoe div 4 - yoe div 100 + doy
      in era * 146097 + doe - 719468)"

definition weekdayNames :: "string list" where
  "weekdayNames = [''Sun'', ''Mon'', ''Tue'', ''Wed'', ''Thu'', ''Fri'', ''Sat'']"

definition monthNames :: "string list" where
  "monthNames = [''Jan'', ''Feb'', ''Mar'', ''Apr'', ''May'', ''Jun'',
                 ''Jul'', ''Aug'', ''Sep'', ''Oct'', ''Nov'', ''Dec'']"

definition pad :: "nat \<Rightarrow> string \<Rightarrow> string" where
  "pad n s = replicate (n - length s) CHR ''0'' @ s"

text \<open>
  \<open>Date.prototype.toDateString\<close>: weekday, month, two-digit day and year with at least
  four digits, as in \<open>Thu Jan 08 2026\<close>.
\<close>

definition toDateString :: "int \<Rightarrow> string" where
  "toDateString t =
     (let day = t div msPerDay in
      case civil_from_days day of (y, m, d) \<Rightarrow>
        weekdayNames ! nat ((day + 4) mod 7) @ '' '' @ monthNames ! nat (m - 1) @ '' ''
        @ pad 2 (show_nat (nat d)) @ '' ''
        @ (if y < 0 then ''-'' @ pad 6 (show_nat (nat (- y))) else pad 4 (show_nat (nat y))))"

text \<open>
  \<open>new Date(s).getTime()\<close> for a string of that form: the local midnight of the date,
  and \<open>NaN\<close> (here \<open>None\<close>) when the month or a number cannot be read. The weekday is
  not read.
\<close>

fun index_of :: "'a \<Rightarrow> 'a list \<Rightarrow> nat option" where
  "index_of x [] = None"
| "index_of x (y # ys) = (if x = y then Some 0 else map_option Suc (index_of x ys))"

definition digit_value :: "char \<Rightarrow> nat option" where
  "digit_value c =
     (if 48 \<le> (of_char c :: nat) \<and> (of_char c :: nat) \<le> 57 then Some (of_char c - 48) else None)"

fun read_nat :: "nat \<Rightarrow> string \<Rightarrow> nat option" where
  "read_nat acc [] = Some acc"
| "read_nat acc (c # cs) =
     (case digit_value c of None \<Rightarrow> None | Some v \<Rightarrow> read_nat (10 * acc + v) cs)"

definition parseDate :: "string \<Rightarrow> int option" where
  "parseDate s =
     (case (index_of (take 3 (drop 4 s)) monthNames, read_nat 0 (take 2 (drop 8 s)),
            read_nat 0 (drop 11 s)) of
        (Some m, Some d, Some y) \<Rightarrow>
          if length s < 15 then None
          else Some (days_from_civil (int y) (int m + 1) (int d) * msPerDay)
      | _ \<Rightarrow> None)"

subsection \<open>Array operations\<close>

text \<open>\<open>[...new Set(xs)]\<close>: the distinct elements in the order of their first occurrence.\<close>

fun unique :: "'a list \<Rightarrow> 'a list" where
  "unique [] = []"
| "unique (x # xs) = x # unique (filter (\<lambda>y. y \<noteq> x) xs)"

text \<open>
  \<open>Array.prototype.sort()\<close> without a comparison function orders strings by their code
  units: \<open>str_less\<close>. On distinct strings every sorting algorithm gives the same array;
  it is built here by insertion.
\<close>

fun str_less :: "string \<Rightarrow> string \<Rightarrow> bool" where
  "str_less [] [] = False"
| "str_less [] (y # ys) = True"
| "str_less (x # xs) [] = False"
| "str_less (x # xs) (y # ys) =
     ((of_char x :: nat) < of_char y \<or> (x = y \<and> str_less xs ys))"

fun insert_sorted :: "string \<Rightarrow> string list \<Rightarrow> string list" where
  "insert_sorted s [] = [s]"
| "insert_sorted s (t # ts) = (if str_less t s then t # insert_sorted s ts else s # t # ts)"

definition sort_strings :: "string list \<Rightarrow> string list" where
  "sort_strings xs = foldr insert_sorted xs []"

subsection \<open>The streak computation\<close>

record progress_row =
  item_identifier :: string
  is_completed :: bool
  created_at :: int

text \<open>
  \<^verbatim>\<open>Math.floor((currentDate.getTime() - previousDate.getTime()) / (1000 * 60 * 60 * 24))\<close>;
  with an unreadable date the value is \<open>NaN\<close>, which is not \<open>=== 1\<close>.
\<close>

definition diffDays :: "string \<Rightarrow> string \<Rightarrow> int option" where
  "diffDays currentDate previousDate =
     (case (parseDate currentDate, parseDate previousDate) of
        (Some c, Some p) \<Rightarrow> Some ((c - p) div msPerDay)
      | _ \<Rightarrow> None)"

text \<open>
  The loop of \<open>calculateCurrentStreak\<close> walks the array from its end, comparing each
  element with the one before it, and stops at the first pair that is not one day apart.
  \<open>streakFrom\<close> takes the array reversed and counts the increments.
\<close>

fun streakFrom :: "string list \<Rightarrow> nat" where
  "streakFrom (currentDate # previousDate # earlier) =
     (if diffDays currentDate previousDate = Some 1
      then Suc (streakFrom (previousDate # earlier)) else 0)"
| "streakFrom [currentDate] = 0"
| "streakFrom [] = 0"

definition calculateCurrentStreak :: "int \<Rightarrow> string list \<Rightarrow> nat" where
  "calculateCurrentStreak now dates =
     (if length dates = 0 then 0
      else
        (let today = toDateString now;
             yesterday = toDateString (now - 24 * 60 * 60 * 1000);
             lastWorkoutDate = last dates
         in if lastWorkoutDate \<noteq> today \<and> lastWorkoutDate \<noteq> yesterday then 0
            else 1 + streakFrom (rev dates)))"

text \<open>
  \<open>calculateBestStreak\<close>: the loop runs forward with the running and the best count.
\<close>

fun bestStreakFrom :: "nat \<Rightarrow> nat \<Rightarrow> string list \<Rightarrow> nat" where
  "bestStreakFrom bestStreak currentStreak (previousDate # currentDate # later) =
     (if diffDays currentDate previousDate = Some 1
      then bestStreakFrom (max bestStreak (Suc currentStreak)) (Suc currentStreak) (currentDate # later)
      else bestStreakFrom bestStreak 1 (currentDate # later))"
| "bestStreakFrom bestStreak currentStreak [d] = bestStreak"
| "bestStreakFrom bestStreak currentStreak [] = bestStreak"

definition calculateBestStreak :: "string list \<Rightarrow> nat" where
  "calculateBestStreak dates = (if length dates = 0 then 0 else bestStreakFrom 1 1 dates)"

text \<open>
  \<open>fetchStreakData\<close>, from the time of the call and the rows the query returns (the
  user's completed rows in ascending order of \<open>created_at\<close>).
\<close>

record streakData =
  currentStreak :: nat
  bestStreak :: nat
  totalWorkouts :: nat
  lastWorkoutDate :: "int option"

definition fetchStreakData :: "int \<Rightarrow> progress_row list \<Rightarrow> streakData" where
  "fetchStreakData now progressData =
     (if length progressData > 0 then
        (let workoutDates = map (\<lambda>p. toDateString (created_at p)) progressData;
             uniqueDates = sort_strings (unique workoutDates)
         in \<lparr>currentStreak = calculateCurrentStreak now uniqueDates,
             bestStreak = calculateBestStreak uniqueDates,
             totalWorkouts = length progressData,
             lastWorkoutDate = Some (created_at (last progressData))\<rparr>)
      else \<lparr>currentStreak = 0, bestStreak = 0, totalWorkouts = 0, lastWorkoutDate = None\<rparr>)"

subsection \<open>The streak as the specification describes it\<close>

text \<open>
  The calendar days with a completed item; the number of consecutive days with a workout
  that end at a given day; and the specified streak: 0 when the most recent workout day is
  neither today nor yesterday, and otherwise the run of consecutive workout days ending at
  the most recent one.
\<close>

definition workoutDays :: "progress_row list \<Rightarrow> int list" where
  "workoutDays rows = map (\<lambda>p. created_at p div msPerDay) rows"

fun consecutiveDays :: "nat \<Rightarrow> int list \<Rightarrow> int \<Rightarrow> nat" where
  "consecutiveDays 0 days d = 0"
| "consecutiveDays (Suc n) days d =
     (if d \<in> set days then Suc (consecutiveDays n days (d - 1)) else 0)"

definition specCurrentStreak :: "int \<Rightarrow> progress_row list \<Rightarrow> nat" where
  "specCurrentStreak now rows =
     (case workoutDays rows of
        [] \<Rightarrow> 0
      | d # ds \<Rightarrow>
          (let mostRecent = fold max ds d; today = now div msPerDay
           in if mostRecent \<noteq> today \<and> mostRecent \<noteq> today - 1 then 0
              else consecutiveDays (Suc (length ds)) (d # ds) mostRecent))"

subsection \<open>Example rows\<close>

text \<open>
  Items completed on Wednesday 7 January 2026 at 18:00 and on Thursday 8 January 2026 at
  07:30, with the streak computed on that Thursday at 20:00.
\<close>

definition rows_wed_thu :: "progress_row list" where
  "rows_wed_thu =
     [\<lparr>item_identifier = ''week1-day1-ex0'', is_completed = True, created_at = 1767808800000\<rparr>,
      \<lparr>item_identifier = ''week1-day2-ex0'', is_completed = True, created_at = 1767857400000\<rparr>]"

definition thursday_evening :: int where
  "thursday_evening = 1767902400000"

section \<open>Cleanup of expired accounts (supabase/functions/cleanup-expired-accounts/index.ts)\<close>

subsection \<open>The database\<close>

text \<open>
  The rows of \<open>auth.users\<close> and of \<open>subscriptions\<close> with the columns the function
  reads (\<open>id'\<close> is the column \<open>id\<close>, \<open>status'\<close> the column \<open>status\<close>; times are
  milliseconds), and the rows of the other tables the function deletes from, each given by
  its table and the user it belongs to.
\<close>

record auth_user =
  id' :: string
  email :: string
  created_at' :: int

record subscription =
  user_id :: string
  status' :: string
  expires_at :: "int option"

record database =
  auth_users :: "auth_user list"
  subscriptions :: "subscription list"
  related :: "(string \<times> string) list"

text \<open>
  What the run depends on besides the database: the clock, and which calls fail. A failed
  query carries the error code the client reports.
\<close>

record cleanup_env =
  now :: int
  direct_query_fails :: bool
  list_users_fails :: "nat \<Rightarrow> bool"
  active_query_failure :: "string \<Rightarrow> string option"
  any_query_failure :: "string \<Rightarrow> string option"
  delete_user_fails :: "string \<Rightarrow> bool"

text \<open>
  \<open>.maybeSingle()\<close> of the client library, on the rows that match the filters: no row
  gives \<open>data = null\<close> without an error, one row gives that row, and several rows give
  \<open>data = null\<close> with the error code \<open>PGRST116\<close>. The result is the pair of \<open>data\<close>
  and the error's code. A query that fails otherwise has no data and its own code.
\<close>

definition maybeSingle :: "'a list \<Rightarrow> 'a option \<times> string option" where
  "maybeSingle rows =
     (case rows of
        [] \<Rightarrow> (None, None)
      | [r] \<Rightarrow> (Some r, None)
      | r # r' # rs \<Rightarrow> (None, Some ''PGRST116''))"

definition runQuery :: "string option \<Rightarrow> 'a list \<Rightarrow> 'a option \<times> string option" where
  "runQuery failure rows =
     (case failure of Some code \<Rightarrow> (None, Some code) | None \<Rightarrow> maybeSingle rows)"

text \<open>The two subscription queries of the loop body.\<close>

definition activeRows :: "cleanup_env \<Rightarrow> auth_user \<Rightarrow> database \<Rightarrow> subscription list" where
  "activeRows env user db =
     filter (\<lambda>s. user_id s = id' user \<and> status' s = ''active''
                 \<and> (case expires_at s of None \<Rightarrow> False | Some t \<Rightarrow> t \<ge> now env))
            (subscriptions db)"

definition paidRows :: "auth_user \<Rightarrow> database \<Rightarrow> subscription list" where
  "paidRows user db =
     filter (\<lambda>s. user_id s = id' user \<and> status' s \<in> set [''active'', ''expired'', ''cancelled''])
            (subscriptions db)"

text \<open>
  Whether the loop body reaches the deletion block for a user: each query skips the user
  (\<open>continue\<close>) on an error whose code is not \<open>PGRST116\<close> and on a row.
\<close>

definition reachesDeletion :: "cleanup_env \<Rightarrow> auth_user \<Rightarrow> database \<Rightarrow> bool" where
  "reachesDeletion env user db =
     (case runQuery (active_query_failure env (id' user)) (activeRows env user db) of
        (activeSubscription, activeSubError) \<Rightarrow>
          if activeSubError \<noteq> None \<and> activeSubError \<noteq> Some ''PGRST116'' then False
          else if activeSubscription \<noteq> None then False
          else
            (case runQuery (any_query_failure env (id' user)) (paidRows user db) of
               (anySubscription, anySubError) \<Rightarrow>
                 if anySubError \<noteq> None \<and> anySubError \<noteq> Some ''PGRST116'' then False
                 else if anySubscription \<noteq> None then False
                 else True))"

text \<open>
  The deletion block: the rows of the user in the eight tables, then the account unless
  \<open>deleteUser\<close> reports an error. The result tells whether the account was deleted.
\<close>

definition relatedTables :: "string list" where
  "relatedTables =
     [''ai_conversations'', ''user_progress'', ''user_workout_plans'', ''workout_plans'',
      ''user_profiles'', ''plan_progress'', ''profiles'']"

definition deleteRelated :: "string \<Rightarrow> database \<Rightarrow> database" where
  "deleteRelated userId db =
     db\<lparr>related := filter (\<lambda>(t, owner). \<not> (t \<in> set relatedTables \<and> owner = userId)) (related db),
        subscriptions := filter (\<lambda>s. user_id s \<noteq> userId) (subscriptions db)\<rparr>"

definition deleteAccount :: "cleanup_env \<Rightarrow> auth_user \<Rightarrow> database \<Rightarrow> bool \<times> database" where
  "deleteAccount env user db =
     (let db1 = deleteRelated (id' user) db
      in if delete_user_fails env (id' user) then (False, db1)
         else (True, db1\<lparr>auth_users := filter (\<lambda>u. id' u \<noteq> id' user) (auth_users db1)\<rparr>))"

text \<open>
  The state of the \<open>for\<close> loop: the database, \<open>deletedCount\<close>, and the users for whom
  the deletion block was entered (kept for the statements below).
\<close>

record loop_state =
  store :: database
  deletedCount :: nat
  purged :: "auth_user list"

definition checkUser :: "cleanup_env \<Rightarrow> auth_user \<Rightarrow> loop_state \<Rightarrow> loop_state" where
  "checkUser env user st =
     (if reachesDeletion env user (store st) then
        (case deleteAccount env user (store st) of
           (ok, db') \<Rightarrow>
             \<lparr>store = db',
              deletedCount = (if ok then deletedCount st + 1 else deletedCount st),
              purged = purged st @ [user]\<rparr>)
      else st)"

subsection \<open>Selecting the users to check\<close>

text \<open>
  The paginated fallback: page \<open>page\<close> of \<open>listUsers\<close> holds the users from position
  \<open>(page - 1) * perPage\<close> on, at most \<open>perPage\<close> of them. The loop ends at an empty or
  a short page, and throws when the call reports an error.
\<close>

definition perPage :: nat where
  "perPage = 1000"

definition listUsers :: "database \<Rightarrow> nat \<Rightarrow> auth_user list" where
  "listUsers db page = take perPage (drop ((page - 1) * perPage) (auth_users db))"

function fetchAllUsers ::
  "cleanup_env \<Rightarrow> database \<Rightarrow> nat \<Rightarrow> auth_user list \<Rightarrow> js_error + auth_user list" where
  "fetchAllUsers env db page allUsers =
     (if list_users_fails env page then Inl (Error ''authError'')
      else if length (listUsers db page) = 0 then Inr allUsers
      else if length (listUsers db page) < perPage then Inr (allUsers @ listUsers db page)
      else fetchAllUsers env db (page + 1) (allUsers @ listUsers db page))"
  by pat_completeness auto
termination
  by (relation "measure (\<lambda>(env, db, page, allUsers).
                  length (auth_users db) + perPage - page * perPage)")
     (auto simp: listUsers_def perPage_def)

declare fetchAllUsers.simps [simp del]

text \<open>
  The users of the direct query \<^verbatim>\<open>.lt('created_at', limitDate)\<close>, when the database
  answers it, and otherwise those of the fallback that pass
  \<^verbatim>\<open>new Date(user.created_at) < limitDate\<close>; with them, \<open>totalUsersCount\<close>.
\<close>

definition limitDate :: "cleanup_env \<Rightarrow> int" where
  "limitDate env = now env - 48 * 60 * 60 * 1000"

definition usersToCheck :: "cleanup_env \<Rightarrow> database \<Rightarrow> js_error + auth_user list \<times> nat" where
  "usersToCheck env db =
     (if direct_query_fails env then
        (case fetchAllUsers env db 1 [] of
           Inl authError \<Rightarrow> Inl authError
         | Inr allUsers \<Rightarrow>
             Inr (filter (\<lambda>user. created_at' user < limitDate env) allUsers, length allUsers))
      else
        (let expiredUsers = filter (\<lambda>user. created_at' user < limitDate env) (auth_users db)
         in Inr (expiredUsers, length expiredUsers)))"

subsection \<open>The handler\<close>

text \<open>
  The three responses: \<open>ok\<close> to an \<open>OPTIONS\<close> request; status 200 with
  \<open>success: true\<close>, \<open>deletedCount\<close>, \<open>checkedUsers\<close> and \<open>totalUsers\<close>
  (the message and the timestamp are left out); status 500 with \<open>success: false\<close>
  when an exception reaches the outer \<open>catch\<close>. A run yields the response, the users
  for whom the deletion block was entered, and the database afterwards.
\<close>

datatype cleanup_response =
    Preflight
  | Summary (deleted: nat) (checkedUsers: nat) (totalUsers: nat)
  | ServerError

record cleanup_run =
  answer :: cleanup_response
  reached_deletion :: "auth_user list"
  final_db :: database

definition cleanup :: "cleanup_env \<Rightarrow> string \<Rightarrow> database \<Rightarrow> cleanup_run" where
  "cleanup env req_method db0 =
     (if req_method = ''OPTIONS'' then
        \<lparr>answer = Preflight, reached_deletion = [], final_db = db0\<rparr>
      else
        (case usersToCheck env db0 of
           Inl error \<Rightarrow> \<lparr>answer = ServerError, reached_deletion = [], final_db = db0\<rparr>
         | Inr (users, totalUsersCount) \<Rightarrow>
             (let st = fold (checkUser env) users \<lparr>store = db0, deletedCount = 0, purged = []\<rparr>
              in \<lparr>answer = Summary (deletedCount st) (length users) totalUsersCount,
                  reached_deletion = purged st,
                  final_db = store st\<rparr>)))"

subsection \<open>Example database\<close>

text \<open>
  One account created on 1 January 2026 whose owner paid twice: a subscription that expired
  and one that was cancelled. The run is on 8 January 2026 and no call fails.
\<close>

definition paid_user :: auth_user where
  "paid_user = \<lparr>id' = ''u1'', email = ''ana@example.com'', created_at' = 1767225600000\<rparr>"

definition paid_db :: database where
  "paid_db =
     \<lparr>auth_users = [paid_user],
      subscriptions =
        [\<lparr>user_id = ''u1'', status' = ''expired'', expires_at = Some 1767400000000\<rparr>,
         \<lparr>user_id = ''u1'', status' = ''cancelled'', expires_at = Some 1767800000000\<rparr>],
      related = [(''profiles'', ''u1''), (''workout_plans'', ''u1'')]\<rparr>"

definition quiet_env :: cleanup_env where
  "quiet_env =
     \<lparr>now = 1767902400000, direct_query_fails = True, list_users_fails = (\<lambda>page. False),
      active_query_failure = (\<lambda>userId. None), any_query_failure = (\<lambda>userId. None),
      delete_user_fails = (\<lambda>userId. False)\<rparr>"

text \<open>
  Two accounts without any subscription: one created on 1 January 2026, one created an hour
  before the run.
\<close>

definition old_user :: auth_user where
  "old_user = \<lparr>id' = ''u2'', email = ''rui@example.com'', created_at' = 1767225600000\<rparr>"

definition new_user :: auth_user where
  "new_user = \<lparr>id' = ''u3'', email = ''lia@example.com'', created_at' = 1767898800000\<rparr>"

definition unpaid_db :: database where
  "unpaid_db =
     \<lparr>auth_users = [old_user, new_user], subscriptions = [],
      related = [(''profiles'', ''u2''), (''profiles'', ''u3'')]\<rparr>"

section \<open>Notions used to state the properties of plan generation\<close>



definition planField :: "string \<Rightarrow> json option \<Rightarrow> json option" where
  "planField k x = (case x of None \<Rightarrow> None | Some j \<Rightarrow> field j k)"

subsection \<open>Example inputs\<close>

definition profile_ativo :: userProfile where
  "profile_ativo =
     \<lparr>age = Some 30, gender = Some ''masculino'', weight = Some 80, height = Some 180,
      fitness_level = Some ''ativo'', fitness_goals = Some [''forca'', ''tonificar''],
      available_days = Some 4, session_duration = Some 45,
      equipment = Some ''casa_halteres'', limitations = Some ''nenhuma''\<rparr>"

definition profile_ativo_other :: userProfile where
  "profile_ativo_other =
     \<lparr>age = Some 52, gender = None, weight = Some 61, height = None,
      fitness_level = Some ''ativo'', fitness_goals = Some [''forca''],
      available_days = Some 4, session_duration = None,
      equipment = Some ''parque'', limitations = Some ''joelho''\<rparr>"

definition profile_constructor :: userProfile where
  "profile_constructor =
     \<lparr>age = Some 30, gender = Some ''feminino'', weight = Some 60, height = Some 165,
      fitness_level = Some ''iniciante'', fitness_goals = Some [''constructor''],
      available_days = Some 3, session_duration = Some 60,
      equipment = Some ''peso_corporal'', limitations = Some ''nenhuma''\<rparr>"

text \<open>
  A worker that can run the generator for up to 100000 available days and serialise plans
  of up to a million exercise entries.
\<close>

definition at_most :: "int \<Rightarrow> int \<Rightarrow> bool" where
  "at_most n d = (d \<le> n)"

definition entry_limit :: "nat \<Rightarrow> json \<Rightarrow> bool" where
  "entry_limit n x = (case field x ''exercises'' of Some (JArr es) \<Rightarrow> length es \<le> n | _ \<Rightarrow> True)"







definition post_ativo :: request where
  "post_ativo = \<lparr>http_method = ''POST'', body = Parsed (Some profile_ativo)\<rparr>"


text \<open>
  A reply of the language model with eight weeks:
  \<^verbatim>\<open>{"title":"Plano","exercises":[],"duration_weeks":8}\<close>, and what \<open>JSON.parse\<close>
  makes of it.
\<close>

definition content_8_weeks :: string where
  "content_8_weeks =
     ''{'' @ [CHR 0x22] @ ''title'' @ [CHR 0x22] @ '':'' @ [CHR 0x22] @ ''Plano'' @ [CHR 0x22]
     @ '','' @ [CHR 0x22] @ ''exercises'' @ [CHR 0x22] @ '':[],'' @ [CHR 0x22]
     @ ''duration_weeks'' @ [CHR 0x22] @ '':8}''"

definition env_8_weeks :: environment where
  "env_8_weeks =
     \<lparr>GROQ_API_KEY = Some ''gsk_key'', groq = Content content_8_weeks,
      JSON_parse = map_of
        [(content_8_weeks,
          JObj [(''title'', JStr ''Plano''), (''exercises'', JArr []), (''duration_weeks'', JNum 8)])],
      canBuild = at_most 100000, canStringify = entry_limit 1000000\<rparr>"

section \<open>Properties of the level lookup\<close>

lemma getCurrentLevelData_level:
  "level (getCurrentLevelData xp) =
     (if xp < 100 then 1 else if xp < 300 then 2 else if xp < 600 then 3
      else if xp < 1000 then 4 else if xp < 1500 then 5 else 6)"
  by (simp add: getCurrentLevelData_def levels_def)

lemma getCurrentLevelData_xpRequired:
  "xpRequired (getCurrentLevelData xp) =
     (if xp < 100 then 0 else if xp < 300 then 100 else if xp < 600 then 300
      else if xp < 1000 then 600 else if xp < 1500 then 1000 else 1500)"
  by (simp add: getCurrentLevelData_def levels_def)

lemma getCurrentLevelData_mem: "getCurrentLevelData xp \<in> set levels"
  by (simp add: getCurrentLevelData_def levels_def)

lemma levels_thresholds: "xpRequired ` set levels = {0, 100, 300, 600, 1000, 1500}"
  by (simp add: levels_def)

lemma getNextLevel_xpRequired:
  "map_option xpRequired (getNextLevel xp) =
     (if xp < 0 then Some 0 else if xp < 100 then Some 100 else if xp < 300 then Some 300
      else if xp < 600 then Some 600 else if xp < 1000 then Some 1000
      else if xp < 1500 then Some 1500 else None)"
  by (simp add: getNextLevel_def levels_def)

lemma getNextLevel_mem: "getNextLevel xp = Some l \<Longrightarrow> l \<in> set levels"
  unfolding getNextLevel_def by (auto simp: find_Some_iff)

text \<open>
  C6. For every non-negative XP value, \<open>getCurrentLevelData\<close> returns the entry of the
  table whose threshold is the greatest one not exceeding the XP (level 1 from 0 XP, 2 from
  100, 3 from 300, 4 from 600, 5 from 1000, 6 from 1500), and \<open>getNextLevel\<close> returns
  the entry with the smallest threshold strictly above the XP, or null exactly when the XP
  is at least 1500.
\<close>

theorem level_threshold_lookup:
  assumes "0 \<le> xp"
  shows "getCurrentLevelData xp \<in> set levels
       \<and> xpRequired (getCurrentLevelData xp) \<le> xp
       \<and> (\<forall>l \<in> set levels. xpRequired l \<le> xp \<longrightarrow> xpRequired l \<le> xpRequired (getCurrentLevelData xp))
       \<and> level (getCurrentLevelData xp) =
           (if xp < 100 then 1 else if xp < 300 then 2 else if xp < 600 then 3
            else if xp < 1000 then 4 else if xp < 1500 then 5 else 6)
       \<and> (getNextLevel xp = None \<longleftrightarrow> 1500 \<le> xp)
       \<and> (\<forall>n. getNextLevel xp = Some n \<longrightarrow>
             n \<in> set levels \<and> xp < xpRequired n
           \<and> (\<forall>l \<in> set levels. xp < xpRequired l \<longrightarrow> xpRequired n \<le> xpRequired l))"
proof -
  have a: "getCurrentLevelData xp \<in> set levels"
    by (rule getCurrentLevelData_mem)
  have b: "xpRequired (getCurrentLevelData xp) \<le> xp"
    using assms by (simp add: getCurrentLevelData_xpRequired)
  have c: "\<forall>l \<in> set levels. xpRequired l \<le> xp \<longrightarrow> xpRequired l \<le> xpRequired (getCurrentLevelData xp)"
  proof (intro ballI impI)
    fix l assume "l \<in> set levels" and le: "xpRequired l \<le> xp"
    then have "xpRequired l \<in> {0, 100, 300, 600, 1000, 1500}"
      using levels_thresholds by blast
    with le show "xpRequired l \<le> xpRequired (getCurrentLevelData xp)"
      by (auto simp: getCurrentLevelData_xpRequired)
  qed
  have d: "getNextLevel xp = None \<longleftrightarrow> 1500 \<le> xp"
    using assms getNextLevel_xpRequired [of xp] by (auto split: if_splits)
  have e: "\<forall>n. getNextLevel xp = Some n \<longrightarrow>
             n \<in> set levels \<and> xp < xpRequired n
           \<and> (\<forall>l \<in> set levels. xp < xpRequired l \<longrightarrow> xpRequired n \<le> xpRequired l)"
  proof (intro allI impI conjI ballI)
    fix n assume n: "getNextLevel xp = Some n"
    show "n \<in> set levels" using n by (rule getNextLevel_mem)
    have nx: "Some (xpRequired n) =
        (if xp < 0 then Some 0 else if xp < 100 then Some 100 else if xp < 300 then Some 300
         else if xp < 600 then Some 600 else if xp < 1000 then Some 1000
         else if xp < 1500 then Some 1500 else None)"
      using getNextLevel_xpRequired [of xp] n by simp
    show "xp < xpRequired n" using nx assms by (auto split: if_splits)
    fix l assume "l \<in> set levels" and lt: "xp < xpRequired l"
    then have "xpRequired l \<in> {0, 100, 300, 600, 1000, 1500}"
      using levels_thresholds by blast
    with lt nx assms show "xpRequired n \<le> xpRequired l"
      by (auto split: if_splits)
  qed
  show ?thesis
    by (intro conjI a b c d e getCurrentLevelData_level)
qed

theorem level_threshold_lookup_witness:
  "(0::int) \<le> 450
   \<and> level (getCurrentLevelData 450) = 3
   \<and> xpRequired (getCurrentLevelData 450) \<le> 450
   \<and> getNextLevel 450 \<noteq> None
   \<and> getNextLevel 1500 = None"
proof -
  have "getNextLevel 450 \<noteq> None" "getNextLevel 1500 = None"
    using level_threshold_lookup [of 450] level_threshold_lookup [of 1500] by simp_all
  moreover have "level (getCurrentLevelData 450) = 3" "xpRequired (getCurrentLevelData 450) \<le> 450"
    using level_threshold_lookup [of 450] by simp_all
  ultimately show ?thesis by simp
qed

text \<open>
  C10. The level lookup is total and monotone: for every XP value the returned level number
  lies between 1 and 6, and a larger XP never yields a smaller level number.
\<close>

theorem level_total_monotone:
  "1 \<le> level (getCurrentLevelData x1) \<and> level (getCurrentLevelData x1) \<le> 6
   \<and> (x1 \<le> x2 \<longrightarrow> level (getCurrentLevelData x1) \<le> level (getCurrentLevelData x2))"
  by (simp add: getCurrentLevelData_level)

theorem level_total_monotone_witness:
  "(-5::int) \<le> 700
   \<and> level (getCurrentLevelData (-5)) = 1 \<and> level (getCurrentLevelData 700) = 4
   \<and> level (getCurrentLevelData (-5)) \<le> level (getCurrentLevelData 700)"
  using level_total_monotone [of "-5" 700]
  by (simp add: getCurrentLevelData_level)

section \<open>Properties of plan generation\<close>

subsection \<open>The fallback generator\<close>

lemma mapFitnessLevelToDifficulty_valid: "mapFitnessLevelToDifficulty l \<in> set validLevels"
  by (simp add: mapFitnessLevelToDifficulty_def validLevels_def)

lemma createFallbackPlan_None:
  "createFallbackPlan None = Inr (fallbackPlan ''iniciante'' ''condicionamento geral'' 3)"
  by (simp add: createFallbackPlan_def orElse_def firstGoal_def numOrElse_def getProp_def
      goalsDescription_def objectPrototypeKeys_def mapFitnessLevelToDifficulty_def)

lemma createFallbackPlan_Inr:
  assumes "createFallbackPlan up = Inr pl"
  shows "difficulty_level pl \<in> set validLevels \<and> duration_weeks pl = 12 \<and> source pl = ''fallback''"
  using assms mapFitnessLevelToDifficulty_valid
  by (auto simp: createFallbackPlan_def Let_def fallbackPlan_def split: property.splits)

lemma map_of_exercisesByDay: "map_of exercisesByDay k = Some xs \<Longrightarrow> length xs = 3"
  by (auto simp: exercisesByDay_def split: if_splits)

lemma length_dayExercises: "length (dayExercises day) = 3"
proof (cases "map_of exercisesByDay (dayLetterText day)")
  case None
  have "map_of exercisesByDay ''A'' \<noteq> None" by (simp add: exercisesByDay_def)
  then obtain xs where a: "map_of exercisesByDay ''A'' = Some xs" by blast
  with None show ?thesis by (simp add: dayExercises_def map_of_exercisesByDay [OF a])
next
  case (Some xs)
  then show ?thesis by (simp add: dayExercises_def map_of_exercisesByDay [OF Some])
qed

lemma length_dayEntries: "length (dayEntries difficultyLevel goalDesc week day) = 4"
  by (simp add: dayEntries_def length_dayExercises)

lemma length_concat_const:
  "(\<And>x. x \<in> set xs \<Longrightarrow> length (f x) = c) \<Longrightarrow> length (concat (map f xs)) = length xs * c"
  by (induction xs) auto

lemma length_fallbackExercises:
  "length (fallbackExercises difficultyLevel goalDesc availableDays) = 48 * nat availableDays"
proof -
  have week: "length (concat (map (dayEntries difficultyLevel goalDesc week)
                                  [1 ..< Suc (nat availableDays)])) = nat availableDays * 4"
    for week
  proof -
    have "length (concat (map (dayEntries difficultyLevel goalDesc week)
                              [1 ..< Suc (nat availableDays)]))
            = length [1 ..< Suc (nat availableDays)] * 4"
      by (rule length_concat_const) (rule length_dayEntries)
    also have "\<dots> = nat availableDays * 4" by simp
    finally show ?thesis .
  qed
  have "length (fallbackExercises difficultyLevel goalDesc availableDays)
          = length [1 ..< (13::nat)] * (nat availableDays * 4)"
    unfolding fallbackExercises_def by (rule length_concat_const) (rule week)
  also have "\<dots> = 48 * nat availableDays" by simp
  finally show ?thesis .
qed

text \<open>
  Whenever the generator returns a plan, the plan has 48 entries per available day: 12 weeks
  of one warm-up and three main exercises for each day.
\<close>

lemma createFallbackPlan_size:
  assumes "createFallbackPlan up = Inr pl"
  shows "length (exercises pl) = 48 * nat (numOrElse (Option.bind up available_days) 3)"
  using assms
  by (auto simp: createFallbackPlan_def Let_def fallbackPlan_def length_fallbackExercises
      split: property.splits)

lemma createFallbackPlan_returns:
  assumes "orElse (firstGoal up) ''condicionamento geral'' \<notin> set objectPrototypeKeys"
  shows "\<exists>pl. createFallbackPlan up = Inr pl"
  using assms by (simp add: createFallbackPlan_def Let_def getProp_def split: option.splits)

text \<open>
  C9. The claim is that for every number of available days \<open>d\<close> from 1 to 7 the fallback
  generator returns \<open>48 * d\<close> exercise entries. For a profile with three available days whose
  first goal is \<open>constructor\<close> the generator returns no plan: the read of
  \<open>goalsDescription[goals]\<close> yields the inherited function and the title expression throws.
  (For goals that are not names of \<open>Object.prototype\<close> the count is given by
  \<open>createFallbackPlan_size\<close> and \<open>createFallbackPlan_returns\<close>.)
\<close>

theorem createFallbackPlan_inherited_goal:
  "available_days profile_constructor = Some 3
   \<and> createFallbackPlan (Some profile_constructor) = Inl TypeError"
  by (simp add: profile_constructor_def createFallbackPlan_def orElse_def firstGoal_def
      numOrElse_def getProp_def goalsDescription_def objectPrototypeKeys_def)

text \<open>
  C7. The fallback generator is a function of its argument alone (it reads no clock, random
  source or other state), and its result depends only on the profile's \<open>fitness_level\<close>,
  the first element of \<open>fitness_goals\<close> and \<open>available_days\<close>: two profiles (or
  \<open>null\<close>, which reads as a profile without these three) that agree on them give the same
  result.
\<close>

theorem createFallbackPlan_deterministic:
  assumes "Option.bind up fitness_level = Option.bind uq fitness_level"
    and "firstGoal up = firstGoal uq"
    and "Option.bind up available_days = Option.bind uq available_days"
  shows "createFallbackPlan up = createFallbackPlan uq"
  using assms by (simp add: createFallbackPlan_def)

theorem createFallbackPlan_deterministic_witness:
  "profile_ativo \<noteq> profile_ativo_other
   \<and> createFallbackPlan (Some profile_ativo) = createFallbackPlan (Some profile_ativo_other)"
proof -
  have "createFallbackPlan (Some profile_ativo) = createFallbackPlan (Some profile_ativo_other)"
    by (rule createFallbackPlan_deterministic)
       (simp_all add: profile_ativo_def profile_ativo_other_def firstGoal_def)
  moreover have "age profile_ativo \<noteq> age profile_ativo_other"
    by (simp add: profile_ativo_def profile_ativo_other_def)
  ultimately show ?thesis by auto
qed

subsection \<open>The request handler\<close>

lemma dropSpace_none: "leadingSpace ws s = 0 \<Longrightarrow> dropSpace ws s = s"
  by (subst dropSpace.simps) simp


















subsection \<open>The number of weeks\<close>

lemma buildPlan_duration:
  assumes "buildPlan data = Inr plan"
  shows "field plan ''duration_weeks'' = Some (jsOr (planField ''duration_weeks'' data) (JNum 8))"
proof -
  from assms obtain fs where d: "data = Some (JObj fs)"
    by (auto simp: buildPlan_def split: option.splits json.splits)
  with assms show ?thesis
    by (auto simp: buildPlan_def field_def planField_def split: if_splits)
qed

lemma buildPlan_plan_json:
  "\<exists>plan. buildPlan (Some (plan_json pl)) = Inr plan"
  by (simp add: buildPlan_def plan_json_def)

text \<open>
  C4, as amended. The plan returned by \<open>createFallbackPlan\<close> has \<open>duration_weeks\<close> 12.
  The plan the client builds from the API response, persists and displays has the
  response's \<open>duration_weeks\<close> when that is truthy and 8 otherwise; it is 12 whenever the
  response is a plan of the fallback generator.
\<close>

theorem duration_weeks_of_plans:
  "(createFallbackPlan up = Inr pl \<longrightarrow> duration_weeks pl = 12)
   \<and> (generatedPlan saved data = Some plan \<longrightarrow>
        field plan ''duration_weeks'' = Some (jsOr (planField ''duration_weeks'' data) (JNum 8)))
   \<and> (createFallbackPlan up = Inr pl \<longrightarrow>
        planField ''duration_weeks'' (generatedPlan True (Some (plan_json pl))) = Some (JNum 12))"
proof (intro conjI impI)
  assume "createFallbackPlan up = Inr pl"
  then show "duration_weeks pl = 12" using createFallbackPlan_Inr by blast
next
  assume "generatedPlan saved data = Some plan"
  then have "buildPlan data = Inr plan"
    by (auto simp: generatedPlan_def split: sum.splits if_splits)
  then show "field plan ''duration_weeks'' = Some (jsOr (planField ''duration_weeks'' data) (JNum 8))"
    by (rule buildPlan_duration)
next
  assume pl: "createFallbackPlan up = Inr pl"
  obtain plan where p: "buildPlan (Some (plan_json pl)) = Inr plan"
    using buildPlan_plan_json by blast
  have "field plan ''duration_weeks''
          = Some (jsOr (planField ''duration_weeks'' (Some (plan_json pl))) (JNum 8))"
    using p by (rule buildPlan_duration)
  moreover have "planField ''duration_weeks'' (Some (plan_json pl)) = Some (JNum 12)"
    using createFallbackPlan_Inr [OF pl] by (simp add: planField_def field_def plan_json_def)
  ultimately show "planField ''duration_weeks'' (generatedPlan True (Some (plan_json pl))) = Some (JNum 12)"
    using p by (simp add: generatedPlan_def planField_def jsOr_def)
qed

theorem duration_weeks_of_plans_witness:
  "createFallbackPlan None = Inr (fallbackPlan ''iniciante'' ''condicionamento geral'' 3)
   \<and> duration_weeks (fallbackPlan ''iniciante'' ''condicionamento geral'' 3) = 12
   \<and> planField ''duration_weeks''
        (generatedPlan True (Some (plan_json (fallbackPlan ''iniciante'' ''condicionamento geral'' 3))))
       = Some (JNum 12)"
  using duration_weeks_of_plans [of None "fallbackPlan ''iniciante'' ''condicionamento geral'' 3"]
    createFallbackPlan_None
  by simp

theorem duration_weeks_counterexample:
  "planField ''duration_weeks'' (generatedPlan True (payload (serve env_8_weeks post_ativo)))
     = Some (JNum 8)"
proof -
  have t: "trim content_8_weeks = content_8_weeks"
    by (simp add: trim_def trimStart_def trimEnd_def content_8_weeks_def dropSpace_none
        leadingSpace_def whiteSpace_def)
  have x: "extractJson content_8_weeks = content_8_weeks"
    by (simp add: content_8_weeks_def extractJson_def str_includes_def)
  have e: "\<not> contentEmpty content_8_weeks"
    by (simp add: contentEmpty_def t) (simp add: content_8_weeks_def)
  have k: "\<not> keyMissing (Some ''gsk_key'')"
    by (simp add: keyMissing_def trim_def trimStart_def trimEnd_def dropSpace_none
        leadingSpace_def whiteSpace_def)
  have v: "validatePlan profile_ativo
             (JObj [(''title'', JStr ''Plano''), (''exercises'', JArr []), (''duration_weeks'', JNum 8)])
           = Inr (JObj [(''title'', JStr ''Plano''), (''exercises'', JArr []),
                        (''duration_weeks'', JNum 8), (''difficulty_level'', JStr ''intermediario''),
                        (''source'', JStr ''groq_api''), (''generated_for'', generated_for profile_ativo)])"
    by (simp add: validatePlan_def isValidLevel_def isArray_def mapFitnessLevelToDifficulty_def
        profile_ativo_def)
  have "tryBody env_8_weeks (body post_ativo)
          = Returned \<lparr>status = 200, payload = Some
              (JObj [(''title'', JStr ''Plano''), (''exercises'', JArr []),
                     (''duration_weeks'', JNum 8), (''difficulty_level'', JStr ''intermediario''),
                     (''source'', JStr ''groq_api''), (''generated_for'', generated_for profile_ativo)])\<rparr>"
    by (simp add: tryBody_def env_8_weeks_def post_ativo_def k e t x v respond_def
        entry_limit_def field_def)
  then show ?thesis
    by (simp add: serve_def post_ativo_def generatedPlan_def buildPlan_def planField_def
        field_def jsOr_def)
qed

section \<open>Properties of per-exercise completion\<close>

text \<open>
  C8. With a signed-in user and a plan, \<open>handleProgressChange\<close> first sets the item's
  entry of the progress map to the toggled status, leaving the other entries alone. If the
  change cannot be persisted it then sets the entry back to the status it was called with,
  so the completion state displayed for the item is the one displayed before the toggle
  (the map itself is the previous map when the item had an entry), and the table is
  unchanged. If the change is persisted, the toggled entry stays.
\<close>

theorem handleProgressChange_rollback:
  assumes "user = Some userId" and "currentPlanId = Some planId" and "planId \<noteq> []"
  shows "(\<exists>optimistic restored.
            handleProgressChange True user currentPlanId item currentStatus prevMap table
              = ([optimistic, restored], table)
          \<and> optimistic item = Some (\<not> currentStatus)
          \<and> (\<forall>k. k \<noteq> item \<longrightarrow> optimistic k = prevMap k)
          \<and> restored item = Some currentStatus
          \<and> (\<forall>k. k \<noteq> item \<longrightarrow> restored k = prevMap k)
          \<and> (currentStatus = isCompleted prevMap item
               \<longrightarrow> isCompleted restored item = isCompleted prevMap item)
          \<and> (prevMap item = Some currentStatus \<longrightarrow> restored = prevMap))
       \<and> (\<exists>optimistic table'.
            handleProgressChange False user currentPlanId item currentStatus prevMap table
              = ([optimistic], table')
          \<and> optimistic item = Some (\<not> currentStatus)
          \<and> table' (userId, planId, item) = Some (\<not> currentStatus))"
  using assms
  by (auto simp: handleProgressChange_def updateItemProgress_def isCompleted_def Let_def)

theorem handleProgressChange_rollback_witness:
  "fst (handleProgressChange True (Some ''u1'') (Some ''Plano'') ''week1-day1-ex0'' False
         (Map.empty(''week1-day1-ex1'' \<mapsto> True)) Map.empty) \<noteq> []
   \<and> isCompleted (last (fst (handleProgressChange True (Some ''u1'') (Some ''Plano'')
                         ''week1-day1-ex0'' False (Map.empty(''week1-day1-ex1'' \<mapsto> True)) Map.empty)))
        ''week1-day1-ex0''
       = isCompleted (Map.empty(''week1-day1-ex1'' \<mapsto> True)) ''week1-day1-ex0''"
proof -
  have p: "''Plano'' \<noteq> []" by simp
  have c: "False = isCompleted (Map.empty(''week1-day1-ex1'' \<mapsto> True)) ''week1-day1-ex0''"
    by (simp add: isCompleted_def)
  from handleProgressChange_rollback [where user = "Some ''u1''" and userId = "''u1''"
      and currentPlanId = "Some ''Plano''" and planId = "''Plano''"
      and item = "''week1-day1-ex0''" and currentStatus = False
      and prevMap = "Map.empty(''week1-day1-ex1'' \<mapsto> True)" and table = Map.empty,
      OF refl refl p]
  obtain optimistic restored where
    h: "handleProgressChange True (Some ''u1'') (Some ''Plano'') ''week1-day1-ex0'' False
          (Map.empty(''week1-day1-ex1'' \<mapsto> True)) Map.empty = ([optimistic, restored], Map.empty)"
    and r: "False = isCompleted (Map.empty(''week1-day1-ex1'' \<mapsto> True)) ''week1-day1-ex0''
              \<longrightarrow> isCompleted restored ''week1-day1-ex0''
                  = isCompleted (Map.empty(''week1-day1-ex1'' \<mapsto> True)) ''week1-day1-ex0''"
    by blast
  from r c have "isCompleted restored ''week1-day1-ex0''
                  = isCompleted (Map.empty(''week1-day1-ex1'' \<mapsto> True)) ''week1-day1-ex0''"
    by blast
  then show ?thesis by (simp add: h)
qed

section \<open>The streak computation against its specification\<close>

lemma toDateString_wed: "toDateString 1767808800000 = ''Wed Jan 07 2026''"
  by code_simp

lemma toDateString_thu: "toDateString 1767857400000 = ''Thu Jan 08 2026''"
  by code_simp

lemma toDateString_now: "toDateString 1767902400000 = ''Thu Jan 08 2026''"
  by code_simp

lemma toDateString_before: "toDateString 1767816000000 = ''Wed Jan 07 2026''"
  by code_simp

lemma diffDays_wed_thu: "diffDays ''Wed Jan 07 2026'' ''Thu Jan 08 2026'' = Some (- 1)"
  by code_simp

lemma sort_thu_wed:
  "sort_strings [''Wed Jan 07 2026'', ''Thu Jan 08 2026''] = [''Thu Jan 08 2026'', ''Wed Jan 07 2026'']"
  by (simp add: sort_strings_def)

lemma uniqueDates_wed_thu:
  "sort_strings (unique (map (\<lambda>p. toDateString (created_at p)) rows_wed_thu))
     = [''Thu Jan 08 2026'', ''Wed Jan 07 2026'']"
  by (simp add: rows_wed_thu_def toDateString_wed toDateString_thu sort_thu_wed)

lemma workoutDays_wed_thu: "workoutDays rows_wed_thu = [20460, 20461]"
  by (simp add: workoutDays_def rows_wed_thu_def msPerDay_def)

text \<open>
  C5. The claim is that the current streak is 0 when the most recent workout day is neither
  today nor yesterday and otherwise the number of consecutive workout days ending at the
  most recent one. For items completed on Wednesday 7 and Thursday 8 January 2026 and a
  streak computed on that Thursday, the specified value is 2; the code sorts the date
  strings as text, which puts \<open>Thu Jan 08 2026\<close> before \<open>Wed Jan 07 2026\<close>, and
  returns 1.
\<close>

theorem currentStreak_wed_thu:
  "sort_strings (unique (map (\<lambda>p. toDateString (created_at p)) rows_wed_thu))
     = [''Thu Jan 08 2026'', ''Wed Jan 07 2026'']
   \<and> currentStreak (fetchStreakData thursday_evening rows_wed_thu) = 1
   \<and> specCurrentStreak thursday_evening rows_wed_thu = 2"
proof (intro conjI)
  show "sort_strings (unique (map (\<lambda>p. toDateString (created_at p)) rows_wed_thu))
          = [''Thu Jan 08 2026'', ''Wed Jan 07 2026'']"
    by (rule uniqueDates_wed_thu)
  have "calculateCurrentStreak thursday_evening [''Thu Jan 08 2026'', ''Wed Jan 07 2026''] = 1"
    by (simp add: calculateCurrentStreak_def thursday_evening_def toDateString_now
        toDateString_before diffDays_wed_thu Let_def)
  then show "currentStreak (fetchStreakData thursday_evening rows_wed_thu) = 1"
    by (simp add: fetchStreakData_def uniqueDates_wed_thu) (simp add: rows_wed_thu_def)
  show "specCurrentStreak thursday_evening rows_wed_thu = 2"
    by (simp add: specCurrentStreak_def workoutDays_wed_thu thursday_evening_def msPerDay_def
        numeral_2_eq_2)
qed

section \<open>Properties of the cleanup\<close>

lemma fetchAllUsers_one_page:
  assumes "\<not> list_users_fails env 1" and "length (auth_users db0) < perPage"
  shows "fetchAllUsers env db0 1 [] = Inr (auth_users db0)"
proof -
  have l: "listUsers db0 1 = auth_users db0"
    using assms(2) by (simp add: listUsers_def)
  show ?thesis
    by (subst fetchAllUsers.simps) (use l assms in auto)
qed

lemma usersToCheck_unpaid_db:
  "usersToCheck quiet_env unpaid_db = Inr ([old_user], 2)"
proof -
  have "fetchAllUsers quiet_env unpaid_db 1 [] = Inr (auth_users unpaid_db)"
    by (rule fetchAllUsers_one_page) (simp_all add: quiet_env_def unpaid_db_def perPage_def)
  then show ?thesis
    by (simp add: usersToCheck_def limitDate_def)
       (simp add: quiet_env_def unpaid_db_def old_user_def new_user_def)
qed

lemma usersToCheck_paid_db:
  "usersToCheck quiet_env paid_db = Inr ([paid_user], 1)"
proof -
  have "fetchAllUsers quiet_env paid_db 1 [] = Inr (auth_users paid_db)"
    by (rule fetchAllUsers_one_page) (simp_all add: quiet_env_def paid_db_def perPage_def)
  then show ?thesis
    by (simp add: usersToCheck_def limitDate_def)
       (simp add: quiet_env_def paid_db_def paid_user_def)
qed

lemma reachesDeletion_old_user: "reachesDeletion quiet_env old_user unpaid_db"
  by (simp add: reachesDeletion_def runQuery_def maybeSingle_def activeRows_def paidRows_def
      quiet_env_def unpaid_db_def)

lemma reachesDeletion_paid_user: "reachesDeletion quiet_env paid_user paid_db"
  by (simp add: reachesDeletion_def runQuery_def maybeSingle_def activeRows_def paidRows_def
      quiet_env_def paid_db_def paid_user_def)

lemma cleanup_unpaid_db:
  "cleanup quiet_env ''POST'' unpaid_db
     = \<lparr>answer = Summary 1 1 2, reached_deletion = [old_user],
        final_db = \<lparr>auth_users = [new_user], subscriptions = [],
                    related = [(''profiles'', ''u3'')]\<rparr>\<rparr>"
proof -
  have d: "deleteAccount quiet_env old_user unpaid_db
             = (True, \<lparr>auth_users = [new_user], subscriptions = [],
                       related = [(''profiles'', ''u3'')]\<rparr>)"
    by (simp add: deleteAccount_def deleteRelated_def relatedTables_def quiet_env_def
        unpaid_db_def old_user_def new_user_def)
  show ?thesis
    by (simp add: cleanup_def usersToCheck_unpaid_db checkUser_def reachesDeletion_old_user d)
qed

lemma cleanup_paid_db:
  "cleanup quiet_env ''POST'' paid_db
     = \<lparr>answer = Summary 1 1 1, reached_deletion = [paid_user],
        final_db = \<lparr>auth_users = [], subscriptions = [], related = []\<rparr>\<rparr>"
proof -
  have d: "deleteAccount quiet_env paid_user paid_db
             = (True, \<lparr>auth_users = [], subscriptions = [], related = []\<rparr>)"
    by (simp add: deleteAccount_def deleteRelated_def relatedTables_def quiet_env_def
        paid_db_def paid_user_def)
  show ?thesis
    by (simp add: cleanup_def usersToCheck_paid_db checkUser_def reachesDeletion_paid_user d)
qed

lemma checkUser_purged:
  "set (purged (checkUser env user st)) \<subseteq> insert user (set (purged st))"
  by (auto simp: checkUser_def split: prod.splits)

lemma fold_checkUser_purged:
  "set (purged (fold (checkUser env) users st)) \<subseteq> set users \<union> set (purged st)"
proof (induction users arbitrary: st)
  case Nil
  then show ?case by simp
next
  case (Cons user users)
  have "set (purged (fold (checkUser env) users (checkUser env user st)))
          \<subseteq> set users \<union> set (purged (checkUser env user st))"
    by (rule Cons.IH)
  with checkUser_purged [of env user st] show ?case by auto
qed

lemma checkUser_purged_mono: "set (purged st) \<subseteq> set (purged (checkUser env user st))"
  by (auto simp: checkUser_def split: prod.splits)

lemma fold_checkUser_purged_mono:
  "set (purged st) \<subseteq> set (purged (fold (checkUser env) users st))"
proof (induction users arbitrary: st)
  case Nil
  then show ?case by simp
next
  case (Cons user users)
  from checkUser_purged_mono [of st env user] Cons.IH [of "checkUser env user st"]
  show ?case by auto
qed

lemma checkUser_removed:
  assumes "v \<in> set (auth_users (store st))"
    and "v \<notin> set (auth_users (store (checkUser env user st)))"
  shows "id' v = id' user \<and> user \<in> set (purged (checkUser env user st))"
  using assms
  by (auto simp: checkUser_def deleteAccount_def deleteRelated_def Let_def
      split: if_splits prod.splits)

lemma fold_checkUser_removed:
  assumes "v \<in> set (auth_users (store st))"
    and "v \<notin> set (auth_users (store (fold (checkUser env) users st)))"
  shows "\<exists>u \<in> set (purged (fold (checkUser env) users st)). id' u = id' v"
  using assms
proof (induction users arbitrary: st)
  case Nil
  then show ?case by simp
next
  case (Cons user users)
  show ?case
  proof (cases "v \<in> set (auth_users (store (checkUser env user st)))")
    case True
    with Cons show ?thesis by simp
  next
    case False
    from checkUser_removed [OF Cons.prems(1) False]
    have "id' v = id' user" and "user \<in> set (purged (checkUser env user st))" by simp_all
    with fold_checkUser_purged_mono [of "checkUser env user st" env users]
    show ?thesis by auto
  qed
qed

lemma usersToCheck_old:
  assumes "usersToCheck env db0 = Inr (users, n)"
  shows "\<forall>u \<in> set users. created_at' u < limitDate env"
  using assms by (auto simp: usersToCheck_def Let_def split: if_splits sum.splits)

text \<open>
  C2. Every user for whom the deletion block is entered was created strictly before the
  run's reference time minus 48 hours, whether the users come from the direct query or from
  the paginated fallback; and every account missing from \<open>auth.users\<close> after the run is
  the account of such a user.
\<close>

theorem cleanup_only_old_accounts:
  "(\<forall>u \<in> set (reached_deletion (cleanup env req_method db0)).
       created_at' u < now env - 48 * 60 * 60 * 1000)
   \<and> (\<forall>v \<in> set (auth_users db0).
         v \<notin> set (auth_users (final_db (cleanup env req_method db0)))
         \<longrightarrow> (\<exists>u \<in> set (reached_deletion (cleanup env req_method db0)). id' u = id' v))"
proof (cases "req_method = ''OPTIONS''")
  case True
  then show ?thesis by (simp add: cleanup_def)
next
  case False
  show ?thesis
  proof (cases "usersToCheck env db0")
    case (Inl e)
    with False show ?thesis by (simp add: cleanup_def)
  next
    case (Inr r)
    obtain users n where r: "r = (users, n)" by (cases r)
    let ?st = "fold (checkUser env) users \<lparr>store = db0, deletedCount = 0, purged = []\<rparr>"
    have c: "cleanup env req_method db0
               = \<lparr>answer = Summary (deletedCount ?st) (length users) n,
                  reached_deletion = purged ?st, final_db = store ?st\<rparr>"
      using False Inr r by (simp add: cleanup_def Let_def)
    have old: "\<forall>u \<in> set users. created_at' u < limitDate env"
      using Inr r usersToCheck_old by blast
    have sub: "set (purged ?st) \<subseteq> set users"
      using fold_checkUser_purged [of env users "\<lparr>store = db0, deletedCount = 0, purged = []\<rparr>"]
      by simp
    have one: "\<forall>u \<in> set (purged ?st). created_at' u < now env - 48 * 60 * 60 * 1000"
      using old sub by (auto simp: limitDate_def)
    have two: "\<exists>u \<in> set (purged ?st). id' u = id' v"
      if "v \<in> set (auth_users db0)" and "v \<notin> set (auth_users (store ?st))" for v
      using fold_checkUser_removed [of v "\<lparr>store = db0, deletedCount = 0, purged = []\<rparr>" env users] that
      by simp
    show ?thesis unfolding c using one two by simp
  qed
qed

theorem cleanup_only_old_accounts_witness:
  "reached_deletion (cleanup quiet_env ''POST'' unpaid_db) = [old_user]
   \<and> created_at' old_user < now quiet_env - 48 * 60 * 60 * 1000
   \<and> auth_users (final_db (cleanup quiet_env ''POST'' unpaid_db)) = [new_user]"
proof -
  have r: "reached_deletion (cleanup quiet_env ''POST'' unpaid_db) = [old_user]"
    by (simp add: cleanup_unpaid_db)
  have a: "auth_users (final_db (cleanup quiet_env ''POST'' unpaid_db)) = [new_user]"
    by (simp add: cleanup_unpaid_db)
  from cleanup_only_old_accounts [of quiet_env "''POST''" unpaid_db] r
  have "created_at' old_user < now quiet_env - 48 * 60 * 60 * 1000" by simp
  with r a show ?thesis by simp
qed

text \<open>
  A user is kept when one of the two queries finds exactly one row, or fails with a code
  other than \<open>PGRST116\<close>.
\<close>

lemma single_row_kept:
  assumes "active_query_failure env (id' user) = None" and "any_query_failure env (id' user) = None"
    and "length (activeRows env user db0) = 1 \<or> length (paidRows user db0) = 1"
  shows "\<not> reachesDeletion env user db0"
  using assms
  by (auto simp: reachesDeletion_def runQuery_def maybeSingle_def length_Suc_conv
      split: list.splits)

text \<open>
  C1. The claim is that a user with a subscription row whose status is \<open>active\<close>,
  \<open>expired\<close> or \<open>cancelled\<close> is never deleted. For an account with two such rows, one
  expired and one cancelled, the second query reports \<open>PGRST116\<close> (several rows) without
  data; the function goes on to the deletion block and deletes the user's rows and the
  account.
\<close>

theorem cleanup_deletes_paid_account:
  "paidRows paid_user paid_db \<noteq> []
   \<and> reached_deletion (cleanup quiet_env ''POST'' paid_db) = [paid_user]
   \<and> answer (cleanup quiet_env ''POST'' paid_db) = Summary 1 1 1
   \<and> auth_users (final_db (cleanup quiet_env ''POST'' paid_db)) = []
   \<and> subscriptions (final_db (cleanup quiet_env ''POST'' paid_db)) = []
   \<and> related (final_db (cleanup quiet_env ''POST'' paid_db)) = []"
  by (simp add: cleanup_paid_db) (simp add: paidRows_def paid_db_def paid_user_def)

end
